theory Spec2Isabelle
  imports Main
begin

section \<open>Python values used by the session subsystem\<close>

text \<open>
  Text is ASCII text, a \<^typ>\<open>string\<close>. A value that may be Python's \<open>None\<close> (a JSON key
  that is absent, an unset environment variable) is a \<^typ>\<open>string option\<close>. A
  \<open>datetime\<close> is the number of microseconds since the epoch, a \<open>timedelta\<close> a number
  of microseconds.
\<close>

type_synonym datetime = int

definition truthy :: "string option \<Rightarrow> bool" where
  "truthy v = (case v of None \<Rightarrow> False | Some s \<Rightarrow> s \<noteq> [])"

definition py_or :: "string option \<Rightarrow> string option \<Rightarrow> string option" where
  "py_or a b = (if truthy a then a else b)"

definition lower_char :: "char \<Rightarrow> char" where
  "lower_char c =
     (let n = (of_char c :: nat) in if 65 \<le> n \<and> n \<le> 90 then char_of (n + 32) else c)"

definition lower :: "string \<Rightarrow> string" where
  "lower s = map lower_char s"

definition rstrip :: "char \<Rightarrow> string \<Rightarrow> string" where
  "rstrip c s = rev (dropWhile (\<lambda>x. x = c) (rev s))"

definition isspace :: "char \<Rightarrow> bool" where
  "isspace c = (let n = (of_char c :: nat) in (9 \<le> n \<and> n \<le> 13) \<or> (28 \<le> n \<and> n \<le> 32))"

definition strip :: "string \<Rightarrow> string" where
  "strip s = rev (dropWhile isspace (rev (dropWhile isspace s)))"

fun join :: "string \<Rightarrow> string list \<Rightarrow> string" where
  "join sep [] = []"
| "join sep [x] = x"
| "join sep (x # y # ys) = x @ sep @ join sep (y # ys)"

text \<open>\<open>timedelta(days=d)\<close>, and the attribute \<open>.seconds\<close> of a timedelta: Python keeps a
  timedelta as days, seconds (0 to 86399) and microseconds, and \<open>.seconds\<close> is the middle
  component, not the length of the interval.\<close>

definition timedelta :: "int \<Rightarrow> int" where
  "timedelta days = days * 86400000000"

definition seconds :: "int \<Rightarrow> int" where
  "seconds d = (d mod 86400000000) div 1000000"

datatype py_error = AttributeError | ValueError

datatype py_value = PyNone | PyInt int

section \<open>The world outside the repository\<close>

text \<open>
  \<open>hashlib\<close> and the server's environment are parameters: \<open>sha256_hexdigest w s\<close> is
  \<open>hashlib.sha256(s.encode()).hexdigest()\<close>, \<open>md5_hexdigest\<close> likewise, and
  \<open>GOOGLE_API_KEY\<close> is \<open>os.getenv('GOOGLE_API_KEY')\<close>.
\<close>

record world =
  sha256_hexdigest :: "string \<Rightarrow> string"
  md5_hexdigest :: "string \<Rightarrow> string"
  GOOGLE_API_KEY :: "string option"

text \<open>
  What one request reads from outside while it is served: the clock (every
  \<open>datetime.now()\<close> of the request gives \<open>now\<close>), the identifiers \<open>str(uuid.uuid4())\<close>
  it draws, the outcome of the HTTP call to \<open>frappe.auth.get_logged_user\<close>, whether the
  constructor \<open>AidaERPNextAgent(...)\<close> returns or raises, and what \<open>agent.chat\<close> answers
  (\<open>None\<close> when it raises).
\<close>

datatype http_outcome = HttpRaised | HttpStatus nat "string option"

record call =
  now :: datetime
  uuid4 :: string
  uuid4_second :: string
  get_logged_user :: http_outcome
  agent_init :: bool
  agent_chat :: "string option"

section \<open>mongodb\_manager.py\<close>

record UserSession =
  session_id :: string
  user_id :: "string option"
  user_identifier :: string
  erpnext_url :: string
  username :: string
  password_hash :: string
  google_api_key_hash :: string
  site_base_url :: string
  created_at :: datetime
  last_accessed :: datetime
  browser_fingerprint :: string
  is_active :: bool

record ChatMessage =
  message_id :: string
  msg_session_id :: string
  msg_user_id :: "string option"
  msg_user_identifier :: string
  timestamp :: datetime
  message_type :: string
  content :: string
  metadata :: "(string \<times> string) list option"

text \<open>The two collections, each a list of documents in insertion order.\<close>

record db =
  sessions_collection :: "UserSession list"
  messages_collection :: "ChatMessage list"

text \<open>
  \<open>find_one(filter, sort=[("last_accessed", -1)])\<close>: the matching document with the
  greatest \<open>last_accessed\<close>; among several with the greatest value the model takes the
  first inserted. \<open>update_one\<close> changes the first matching document only.
\<close>

fun latest :: "UserSession \<Rightarrow> UserSession list \<Rightarrow> UserSession" where
  "latest b [] = b"
| "latest b (s # ss) = latest (if last_accessed b < last_accessed s then s else b) ss"

definition find_one_latest :: "(UserSession \<Rightarrow> bool) \<Rightarrow> UserSession list \<Rightarrow> UserSession option" where
  "find_one_latest q docs = (case filter q docs of [] \<Rightarrow> None | s # ss \<Rightarrow> Some (latest s ss))"

fun update_one :: "('a \<Rightarrow> bool) \<Rightarrow> ('a \<Rightarrow> 'a) \<Rightarrow> 'a list \<Rightarrow> 'a list" where
  "update_one q u [] = []"
| "update_one q u (d # ds) = (if q d then u d # ds else d # update_one q u ds)"

text \<open>\<open>cursor.limit(n)\<close>: 0 is no limit, a negative \<open>n\<close> counts as \<open>-n\<close>.\<close>

definition limit_cursor :: "int \<Rightarrow> 'a list \<Rightarrow> 'a list" where
  "limit_cursor n docs = (if n = 0 then docs else take (nat \<bar>n\<bar>) docs)"

definition generate_user_identifier :: "world \<Rightarrow> string \<Rightarrow> string \<Rightarrow> string" where
  "generate_user_identifier w uname url =
     (let normalized_url = lower (rstrip (CHR ''/'') url);
          identifier_string = lower uname @ ''@'' @ normalized_url
      in take 16 (sha256_hexdigest w identifier_string))"

definition hash_credential :: "world \<Rightarrow> string \<Rightarrow> string" where
  "hash_credential w credential = sha256_hexdigest w credential"

definition generate_browser_fingerprint :: "world \<Rightarrow> string \<Rightarrow> string \<Rightarrow> string" where
  "generate_browser_fingerprint w ua ip = md5_hexdigest w (ua @ '':'' @ ip)"

text \<open>\<open>create_session\<close>: \<open>_hash_credential(None)\<close> raises AttributeError before anything
  is inserted. No index of the collection is unique, so the insert never raises
  DuplicateKeyError.\<close>

definition create_session ::
  "world \<Rightarrow> datetime \<Rightarrow> string \<Rightarrow> string \<Rightarrow> string \<Rightarrow> string option \<Rightarrow> string \<Rightarrow> string \<Rightarrow> string
   \<Rightarrow> string option \<Rightarrow> string option \<Rightarrow> 'a db_scheme \<Rightarrow> py_error + (string \<times> 'a db_scheme)" where
  "create_session w t new_id url uname pw api_key ua ip sbu uid d =
     (case pw of
        None \<Rightarrow> Inl AttributeError
      | Some p \<Rightarrow>
          Inr (new_id,
               d\<lparr>sessions_collection := sessions_collection d @
                  [\<lparr>session_id = new_id,
                    user_id = uid,
                    user_identifier = generate_user_identifier w uname url,
                    erpnext_url = url,
                    username = uname,
                    password_hash = hash_credential w p,
                    google_api_key_hash = hash_credential w api_key,
                    site_base_url = (case py_or sbu (Some url) of None \<Rightarrow> url | Some v \<Rightarrow> v),
                    created_at = t,
                    last_accessed = t,
                    browser_fingerprint = generate_browser_fingerprint w ua ip,
                    is_active = True\<rparr>]\<rparr>))"

definition get_session :: "'a db_scheme \<Rightarrow> string \<Rightarrow> UserSession option" where
  "get_session d sid = find (\<lambda>s. session_id s = sid \<and> is_active s) (sessions_collection d)"

definition find_existing_session ::
  "world \<Rightarrow> datetime \<Rightarrow> string \<Rightarrow> string \<Rightarrow> string \<Rightarrow> string \<Rightarrow> string option \<Rightarrow> 'a db_scheme
   \<Rightarrow> string option" where
  "find_existing_session w t ua ip url uname uid d =
     (let uident = generate_user_identifier w uname url;
          fingerprint = generate_browser_fingerprint w ua ip;
          cutoff_date = t - timedelta 30;
          by_user_id =
            (if truthy uid
             then find_one_latest
                    (\<lambda>s. user_id s = uid \<and> erpnext_url s = url \<and>
                         cutoff_date \<le> last_accessed s \<and> is_active s)
                    (sessions_collection d)
             else None)
      in case by_user_id of
           Some s \<Rightarrow> Some (session_id s)
         | None \<Rightarrow>
             (case find_one_latest
                     (\<lambda>s. user_identifier s = uident \<and> browser_fingerprint s = fingerprint \<and>
                          cutoff_date \<le> last_accessed s \<and> is_active s)
                     (sessions_collection d) of
                Some s \<Rightarrow> Some (session_id s)
              | None \<Rightarrow> None))"

definition update_session_access :: "datetime \<Rightarrow> string \<Rightarrow> 'a db_scheme \<Rightarrow> 'a db_scheme" where
  "update_session_access t sid d =
     d\<lparr>sessions_collection :=
         update_one (\<lambda>s. session_id s = sid) (\<lambda>s. s\<lparr>last_accessed := t\<rparr>) (sessions_collection d)\<rparr>"

definition verify_credentials ::
  "world \<Rightarrow> 'a db_scheme \<Rightarrow> string \<Rightarrow> string option \<Rightarrow> string \<Rightarrow> py_error + bool" where
  "verify_credentials w d sid pw api_key =
     (case get_session d sid of
        None \<Rightarrow> Inr False
      | Some s \<Rightarrow>
          (case pw of
             None \<Rightarrow> Inl AttributeError
           | Some p \<Rightarrow>
               Inr (password_hash s = hash_credential w p \<and>
                    google_api_key_hash s = hash_credential w api_key)))"

definition store_chat_message ::
  "datetime \<Rightarrow> string \<Rightarrow> string \<Rightarrow> string \<Rightarrow> string \<Rightarrow> (string \<times> string) list option
   \<Rightarrow> 'a db_scheme \<Rightarrow> py_error + (string \<times> 'a db_scheme)" where
  "store_chat_message t new_id sid mtype text meta d =
     (case get_session d sid of
        None \<Rightarrow> Inl ValueError
      | Some s \<Rightarrow>
          Inr (new_id,
               d\<lparr>messages_collection := messages_collection d @
                  [\<lparr>message_id = new_id,
                    msg_session_id = sid,
                    msg_user_id = user_id s,
                    msg_user_identifier = user_identifier s,
                    timestamp = t,
                    message_type = mtype,
                    content = text,
                    metadata = meta\<rparr>]\<rparr>))"

record history_message =
  role :: string
  message_content :: string
  message_timestamp :: datetime
  message_metadata :: "(string \<times> string) list option"

definition history_of :: "ChatMessage \<Rightarrow> history_message" where
  "history_of doc =
     \<lparr>role = (if message_type doc = ''user'' then ''user'' else ''assistant''),
      message_content = content doc,
      message_timestamp = timestamp doc,
      message_metadata = metadata doc\<rparr>"

definition get_chat_history :: "'a db_scheme \<Rightarrow> string \<Rightarrow> int \<Rightarrow> history_message list" where
  "get_chat_history d sid n =
     map history_of
       (limit_cursor n
          (sort_key timestamp (filter (\<lambda>m. msg_session_id m = sid) (messages_collection d))))"

definition deactivate_session :: "string \<Rightarrow> 'a db_scheme \<Rightarrow> 'a db_scheme" where
  "deactivate_session sid d =
     d\<lparr>sessions_collection :=
         update_one (\<lambda>s. session_id s = sid) (\<lambda>s. s\<lparr>is_active := False\<rparr>) (sessions_collection d)\<rparr>"

text \<open>\<open>cleanup_expired_sessions\<close> has no \<open>return\<close> statement: its value is \<open>None\<close>, and
  the number of sessions found goes to the log only.\<close>

definition expired_sessions :: "datetime \<Rightarrow> int \<Rightarrow> 'a db_scheme \<Rightarrow> UserSession list" where
  "expired_sessions t days d =
     filter (\<lambda>s. last_accessed s < t - timedelta days \<or> \<not> is_active s) (sessions_collection d)"

definition cleanup_expired_sessions :: "datetime \<Rightarrow> int \<Rightarrow> 'a db_scheme \<Rightarrow> py_value \<times> 'a db_scheme" where
  "cleanup_expired_sessions t days d =
     (let expired = expired_sessions t days d
      in if expired \<noteq> []
         then (let session_ids = map session_id expired
               in (PyNone,
                   d\<lparr>messages_collection :=
                        filter (\<lambda>m. msg_session_id m \<notin> set session_ids) (messages_collection d),
                     sessions_collection :=
                        filter (\<lambda>s. session_id s \<notin> set session_ids) (sessions_collection d)\<rparr>))
         else (PyNone, d))"

definition clear_all_sessions :: "'a db_scheme \<Rightarrow> 'a db_scheme" where
  "clear_all_sessions d = d\<lparr>messages_collection := [], sessions_collection := []\<rparr>"

section \<open>session\_manager.py\<close>

text \<open>
  \<open>SessionManager\<close> hands every call to the \<open>MongoDBManager\<close>; only
  \<open>store_chat_message\<close> does more: it stores the user's message, then the answer. The
  result is the exception raised, if any, with the store as it stands at that moment.
\<close>

definition sm_store_chat_message ::
  "datetime \<Rightarrow> string \<Rightarrow> string \<Rightarrow> string \<Rightarrow> string \<Rightarrow> string \<Rightarrow> 'a db_scheme
   \<Rightarrow> py_error option \<times> 'a db_scheme" where
  "sm_store_chat_message t id1 id2 sid user_message ai_response d =
     (case store_chat_message t id1 sid ''user'' user_message None d of
        Inl e \<Rightarrow> (Some e, d)
      | Inr (m1, d1) \<Rightarrow>
          (case store_chat_message t id2 sid ''assistant'' ai_response None d1 of
             Inl e \<Rightarrow> (Some e, d1)
           | Inr (m2, d2) \<Rightarrow> (None, d2)))"

section \<open>aida\_api\_server.py\<close>

text \<open>
  The agent is opaque: a handle records the arguments it was built from. The server's
  state is the database, the dictionary \<open>active_agents\<close> and the dictionary
  \<open>app.rate_limits\<close> (created empty on first use). A request is its JSON body (the keys
  whose values are text), the flag \<open>restore_session\<close> of the body, the header
  \<open>User-Agent\<close> (empty when absent), the client's address and the query argument
  \<open>limit\<close>. A response is the pair the view returns: the JSON body and the status.
\<close>

datatype AidaERPNextAgent =
  AidaERPNextAgent string string "string option" string string string

record server = db +
  active_agents :: "string \<rightharpoonup> AidaERPNextAgent"
  rate_limits :: "string \<rightharpoonup> datetime list"

record request =
  json_body :: "string \<rightharpoonup> string"
  restore_session :: "bool option"
  user_agent :: string
  remote_addr :: string
  limit_arg :: "int option"

record history_pair =
  pair_timestamp :: datetime
  user_message :: string
  ai_response :: string

datatype body =
    Error string
  | Reconnect string
  | Session string string bool
  | Chat string string
  | History string "history_pair list" nat
  | Message string
  | Unhandled

type_synonym response = "body \<times> nat"

definition the_str :: "string option \<Rightarrow> string" where
  "the_str v = (case v of None \<Rightarrow> [] | Some s \<Rightarrow> s)"

subsection \<open>init\_session\<close>

definition failed_init :: response where
  "failed_init = (Error ''Failed to initialize session. Please check your credentials.'', 500)"

definition session_token_login ::
  "call \<Rightarrow> (string \<rightharpoonup> string) \<Rightarrow> string \<Rightarrow> string option \<Rightarrow> response + (string \<times> string option)" where
  "session_token_login c data uname pw =
     (if pw = Some ''session_token''
      then (let api_key = data ''api_key''; api_secret = data ''api_secret''
            in if \<not> (truthy api_key \<and> truthy api_secret)
               then Inl (Error ''API key and secret required for session token authentication.'', 400)
               else (case get_logged_user c of
                       HttpRaised \<Rightarrow> Inl (Error ''Could not validate session. Please try again.'', 500)
                     | HttpStatus code message \<Rightarrow>
                         if code = 200
                         then (if message = api_key
                               then Inr (the_str api_key, api_secret)
                               else Inl (Error ''Session validation failed. Invalid user.'', 401))
                         else Inl (Error ''Session validation failed. Please log in again.'', 401)))
      else Inr (uname, pw))"

definition restore_existing ::
  "call \<Rightarrow> string \<Rightarrow> string option \<Rightarrow> string \<Rightarrow> server \<Rightarrow> response \<times> server" where
  "restore_existing c existing pw api_key st =
     (let st1 = update_session_access (now c) existing st;
          restored = (Session existing ''Session restored successfully.'' True, 200)
      in if active_agents st1 existing = None
         then (case get_session st1 existing of
                 None \<Rightarrow> (failed_init, st1)
               | Some session_data \<Rightarrow>
                   if agent_init c
                   then (restored,
                         st1\<lparr>active_agents := (active_agents st1)(existing \<mapsto>
                               AidaERPNextAgent (erpnext_url session_data) (username session_data)
                                 pw api_key existing (site_base_url session_data))\<rparr>)
                   else (failed_init, st1))
         else (restored, st1))"

definition create_new_session ::
  "world \<Rightarrow> call \<Rightarrow> string \<Rightarrow> string \<Rightarrow> string option \<Rightarrow> string \<Rightarrow> string \<Rightarrow> string \<Rightarrow> string
   \<Rightarrow> server \<Rightarrow> response \<times> server" where
  "create_new_session w c url uname pw api_key ua ip sbu st =
     (case create_session w (now c) (uuid4 c) url uname pw api_key ua ip (Some sbu) None st of
        Inl e \<Rightarrow> (failed_init, st)
      | Inr (new_id, st1) \<Rightarrow>
          if agent_init c
          then ((Session new_id ''New session created successfully.'' False, 200),
                st1\<lparr>active_agents := (active_agents st1)(new_id \<mapsto>
                      AidaERPNextAgent url uname pw api_key new_id sbu)\<rparr>)
          else (failed_init, st1))"

definition init_try ::
  "world \<Rightarrow> call \<Rightarrow> string \<Rightarrow> string \<Rightarrow> string option \<Rightarrow> string \<Rightarrow> string \<Rightarrow> string \<Rightarrow> string
   \<Rightarrow> bool \<Rightarrow> server \<Rightarrow> response \<times> server" where
  "init_try w c url uname pw api_key ua ip sbu restore st =
     (case (if restore then find_existing_session w (now c) ua ip url uname None st else None) of
        None \<Rightarrow> create_new_session w c url uname pw api_key ua ip sbu st
      | Some existing \<Rightarrow>
          if existing = [] then create_new_session w c url uname pw api_key ua ip sbu st
          else (case verify_credentials w st existing pw api_key of
                  Inl e \<Rightarrow> (failed_init, st)
                | Inr ok \<Rightarrow>
                    if ok then restore_existing c existing pw api_key st
                    else create_new_session w c url uname pw api_key ua ip sbu st))"

text \<open>
  The checks of \<open>init_session\<close> before its \<open>try\<close> block: the answer to a request they refuse,
  or the values the \<open>try\<close> block works with (URL, user name, password, API key, site base
  URL, restore flag). A password \<open>"session_token"\<close> makes the server ask the CRM who owns
  the session cookie \<open>api_secret\<close>; the user name and the password are then \<open>api_key\<close> and
  \<open>api_secret\<close>.
\<close>

definition init_checks ::
  "world \<Rightarrow> call \<Rightarrow> request
   \<Rightarrow> response + (string \<times> string \<times> string option \<times> string \<times> string \<times> bool)" where
  "init_checks w c req =
     (let data = json_body req;
          url_opt = py_or (data ''mocxha_url'') (data ''erpnext_url'');
          uname_opt = data ''username'';
          pw = data ''password'';
          restore = (case restore_session req of None \<Rightarrow> True | Some b \<Rightarrow> b);
          missing_fields = (if \<not> truthy url_opt then [''mocxha_url''] else []) @
                           (if \<not> truthy uname_opt then [''username''] else [])
      in if missing_fields \<noteq> []
         then Inl (Error (''Missing required fields: '' @ join '', '' missing_fields), 400)
         else if \<not> truthy (GOOGLE_API_KEY w)
         then Inl (Error ''Google API key not configured on server. Please check environment variables.'', 500)
         else (let url = the_str url_opt;
                   api_key = the_str (GOOGLE_API_KEY w);
                   sbu = (case data ''site_base_url'' of None \<Rightarrow> url | Some v \<Rightarrow> v)
               in case session_token_login c data (the_str uname_opt) pw of
                    Inl r \<Rightarrow> Inl r
                  | Inr (uname, password) \<Rightarrow>
                      if length api_key < 20
                      then Inl (Error ''Invalid Google API Key format in server configuration.'', 500)
                      else Inr (url, uname, password, api_key, sbu, restore)))"

definition init_session :: "world \<Rightarrow> call \<Rightarrow> request \<Rightarrow> server \<Rightarrow> response \<times> server" where
  "init_session w c req st =
     (case init_checks w c req of
        Inl r \<Rightarrow> (r, st)
      | Inr (url, uname, password, api_key, sbu, restore) \<Rightarrow>
          init_try w c url uname password api_key (user_agent req) (remote_addr req) sbu restore st)"

subsection \<open>chat\_with\_agent\<close>

definition recent_requests :: "datetime \<Rightarrow> datetime list \<Rightarrow> datetime list" where
  "recent_requests current_time last_requests =
     filter (\<lambda>t. seconds (current_time - t) < 60) last_requests"

text \<open>The rate limiter of the chat view: \<open>None\<close> when the request is refused, else the
  dictionary with the request recorded.\<close>

definition chat_rate_limit ::
  "string \<Rightarrow> datetime \<Rightarrow> (string \<rightharpoonup> datetime list) \<Rightarrow> (string \<rightharpoonup> datetime list) option" where
  "chat_rate_limit client_ip current_time limits =
     (case limits client_ip of
        Some last_requests \<Rightarrow>
          (let recent = recent_requests current_time last_requests
           in if 10 \<le> length recent then None
              else Some (limits(client_ip \<mapsto> recent @ [current_time])))
      | None \<Rightarrow> Some (limits(client_ip \<mapsto> [current_time])))"

definition chat_failed :: "call \<Rightarrow> string \<Rightarrow> string \<Rightarrow> server \<Rightarrow> response \<times> server" where
  "chat_failed c sid user_input st =
     (case sm_store_chat_message (now c) (uuid4 c) (uuid4_second c) sid user_input
             ''An error occurred. Please try again.'' st of
        (None, st1) \<Rightarrow> ((Error ''An error occurred. Please try again.'', 500), st1)
      | (Some e, st1) \<Rightarrow> ((Unhandled, 500), st1))"

definition chat_reply :: "call \<Rightarrow> string \<Rightarrow> string \<Rightarrow> server \<Rightarrow> response \<times> server" where
  "chat_reply c sid user_input st =
     (case agent_chat c of
        None \<Rightarrow> chat_failed c sid user_input st
      | Some answer \<Rightarrow>
          (case sm_store_chat_message (now c) (uuid4 c) (uuid4_second c) sid user_input answer st of
             (None, st1) \<Rightarrow> ((Chat sid answer, 200), st1)
           | (Some e, st1) \<Rightarrow> chat_failed c sid user_input st1))"

text \<open>The view after the rate limiter has admitted the request.\<close>

definition chat_admitted :: "call \<Rightarrow> request \<Rightarrow> server \<Rightarrow> response \<times> server" where
  "chat_admitted c req st =
     (let sid_opt = json_body req ''session_id'';
          input_opt = json_body req ''user_input''
      in if \<not> truthy sid_opt \<or> \<not> truthy input_opt
         then ((Error ''Session ID and user input are required.'', 400), st)
         else (let sid = the_str sid_opt;
                   user_input = strip (the_str input_opt)
               in if 2000 < length user_input
                  then ((Error ''Message too long. Please limit to 2000 characters.'', 400), st)
                  else (case get_session st sid of
                          None \<Rightarrow> ((Error ''Invalid or expired session. Please reconnect.'', 404), st)
                        | Some session_data \<Rightarrow>
                            (let st1 = update_session_access (now c) sid st
                             in case active_agents st1 sid of
                                  None \<Rightarrow>
                                    ((Reconnect ''Session found but agent not active. Please reconnect to restore your session.'', 410),
                                     st1)
                                | Some agent \<Rightarrow> chat_reply c sid user_input st1))))"

definition chat_with_agent :: "call \<Rightarrow> request \<Rightarrow> server \<Rightarrow> response \<times> server" where
  "chat_with_agent c req st =
     (case chat_rate_limit (remote_addr req) (now c) (rate_limits st) of
        None \<Rightarrow> ((Error ''Rate limit exceeded. Please try again later.'', 429), st)
      | Some limits \<Rightarrow> chat_admitted c req (st\<lparr>rate_limits := limits\<rparr>))"

subsection \<open>get\_chat\_history, clear\_session and the start of the server\<close>

fun format_history :: "history_message list \<Rightarrow> history_pair list" where
  "format_history [] = []"
| "format_history (msg # rest) =
     (if role msg = ''user''
      then (case rest of
              [] \<Rightarrow> [\<lparr>pair_timestamp = message_timestamp msg,
                     user_message = message_content msg, ai_response = []\<rparr>]
            | nxt # rest2 \<Rightarrow>
                if role nxt = ''assistant''
                then \<lparr>pair_timestamp = message_timestamp msg,
                      user_message = message_content msg,
                      ai_response = message_content nxt\<rparr> # format_history rest2
                else \<lparr>pair_timestamp = message_timestamp msg,
                      user_message = message_content msg, ai_response = []\<rparr> # format_history rest)
      else format_history rest)"

definition get_chat_history_view :: "request \<Rightarrow> string \<Rightarrow> server \<Rightarrow> response" where
  "get_chat_history_view req sid st =
     (if sid = [] then (Error ''Session ID is required.'', 400)
      else (case get_session st sid of
              None \<Rightarrow> (Error ''Invalid session.'', 404)
            | Some session_data \<Rightarrow>
                (let n = (case limit_arg req of None \<Rightarrow> 20 | Some k \<Rightarrow> k);
                     formatted_history = format_history (get_chat_history st sid n)
                 in (History sid formatted_history (length formatted_history), 200))))"

definition clear_session :: "request \<Rightarrow> server \<Rightarrow> response \<times> server" where
  "clear_session req st =
     (let sid_opt = json_body req ''session_id''
      in if \<not> truthy sid_opt then ((Error ''Session ID is required.'', 400), st)
         else (let sid = the_str sid_opt
               in ((Message (''Session '' @ sid @ '' cleared successfully.''), 200),
                   st\<lparr>active_agents := (active_agents st)(sid := None)\<rparr>)))"

text \<open>Loading the module: \<open>SessionManager(...)\<close> sweeps the store, \<open>active_agents\<close> starts
  empty and \<open>clear_all_sessions()\<close> empties the store.\<close>

definition server_start :: "datetime \<Rightarrow> db \<Rightarrow> server" where
  "server_start t d =
     (let d1 = clear_all_sessions (snd (cleanup_expired_sessions t 30 d))
      in \<lparr>sessions_collection = sessions_collection d1,
          messages_collection = messages_collection d1,
          active_agents = Map.empty,
          rate_limits = Map.empty\<rparr>)"

section \<open>A small world to run the model in\<close>

text \<open>Toy hash functions (injective, not cryptographic), one tenant, one device.\<close>

definition example_world :: world where
  "example_world =
     \<lparr>sha256_hexdigest = rev, md5_hexdigest = (\<lambda>s. ''md5:'' @ s),
      GOOGLE_API_KEY = Some ''key123456789012345678''\<rparr>"

definition empty_server :: server where
  "empty_server =
     \<lparr>sessions_collection = [], messages_collection = [],
      active_agents = Map.empty, rate_limits = Map.empty\<rparr>"

definition example_call :: "datetime \<Rightarrow> string \<Rightarrow> call" where
  "example_call t new_id =
     \<lparr>now = t, uuid4 = new_id, uuid4_second = new_id @ ''b'',
      get_logged_user = HttpRaised, agent_init = True, agent_chat = Some ''Hi!''\<rparr>"

definition example_init :: "string \<Rightarrow> request" where
  "example_init pw =
     \<lparr>json_body = [''mocxha_url'' \<mapsto> ''https://crm.example.com'', ''username'' \<mapsto> ''alice'',
                   ''password'' \<mapsto> pw],
      restore_session = None, user_agent = ''UA-A'', remote_addr = ''10.0.0.1'', limit_arg = None\<rparr>"

definition example_chat :: "string \<Rightarrow> string \<Rightarrow> request" where
  "example_chat sid text =
     \<lparr>json_body = [''session_id'' \<mapsto> sid, ''user_input'' \<mapsto> text],
      restore_session = None, user_agent = ''UA-A'', remote_addr = ''10.0.0.1'', limit_arg = None\<rparr>"

definition example_session :: UserSession where
  "example_session =
     \<lparr>session_id = ''S1'', user_id = None, user_identifier = ''moc.elpmaxe.mrc/'',
      erpnext_url = ''https://crm.example.com'', username = ''alice'', password_hash = ''1wp'',
      google_api_key_hash = ''876543210987654321yek'', site_base_url = ''https://crm.example.com'',
      created_at = 0, last_accessed = 1000000, browser_fingerprint = ''md5:UA-A:10.0.0.1'',
      is_active = True\<rparr>"

definition example_message :: "string \<Rightarrow> string \<Rightarrow> string \<Rightarrow> ChatMessage" where
  "example_message mid mtype text =
     \<lparr>message_id = mid, msg_session_id = ''S1'', msg_user_id = None,
      msg_user_identifier = ''moc.elpmaxe.mrc/'', timestamp = 1000000, message_type = mtype,
      content = text, metadata = None\<rparr>"

definition example_server :: server where
  "example_server =
     \<lparr>sessions_collection = [example_session],
      messages_collection = [example_message ''M1'' ''user'' ''hello'',
                             example_message ''M1b'' ''assistant'' ''Hi!''],
      active_agents = [''S1'' \<mapsto> AidaERPNextAgent ''https://crm.example.com'' ''alice''
                         (Some ''pw1'') ''key123456789012345678'' ''S1'' ''https://crm.example.com''],
      rate_limits = [''10.0.0.1'' \<mapsto> [1000000]]\<rparr>"

definition full_server :: server where
  "full_server =
     example_server\<lparr>rate_limits := [''10.0.0.1'' \<mapsto>
        [1000000, 2000000, 3000000, 4000000, 5000000, 6000000, 7000000, 8000000, 9000000,
         10000000]]\<rparr>"

text \<open>A store whose only session was last accessed at the given time.\<close>

definition window_server :: "datetime \<Rightarrow> server" where
  "window_server t = example_server\<lparr>sessions_collection := [example_session\<lparr>last_accessed := t\<rparr>]\<rparr>"

text \<open>A store with an active fresh session, an inactive one and one not accessed for 30
  days, each with a message.\<close>

definition sweep_server :: server where
  "sweep_server =
     example_server\<lparr>sessions_collection :=
        [example_session,
         example_session\<lparr>session_id := ''S2'', is_active := False\<rparr>,
         example_session\<lparr>session_id := ''S3'', last_accessed := - 2592000000000\<rparr>],
      messages_collection :=
        [example_message ''M1'' ''user'' ''hello'',
         (example_message ''M2'' ''user'' ''bye'')\<lparr>msg_session_id := ''S2''\<rparr>,
         (example_message ''M3'' ''user'' ''old'')\<lparr>msg_session_id := ''S3''\<rparr>]\<rparr>"

text \<open>The server after chat requests at the given times, each from address 10.0.0.1 for
  session S1.\<close>

definition after_chats :: "datetime list \<Rightarrow> server \<Rightarrow> server" where
  "after_chats ts st =
     foldl (\<lambda>s t. snd (chat_with_agent (example_call t ''M'') (example_chat ''S1'' ''hello'') s)) st ts"


section \<open>The tenant key in the words of the specification\<close>

text \<open>
  The tenant key as the specification words it, to compare with
  \<open>generate_user_identifier\<close>: trailing slashes are stripped and the host (the part
  between \<open>://\<close> and the next \<open>/\<close>, \<open>?\<close> or \<open>#\<close>) is lowercased, the rest of the URL is kept,
  and the key is the whole digest.
\<close>

fun split_scheme :: "string \<Rightarrow> string \<times> string" where
  "split_scheme [] = ([], [])"
| "split_scheme (c # cs) =
     (if take 3 (c # cs) = ''://'' then (''://'', drop 3 (c # cs))
      else (case split_scheme cs of (p, r) \<Rightarrow> if p = [] then ([], c # cs) else (c # p, r)))"

definition in_host :: "char \<Rightarrow> bool" where
  "in_host c = (c \<noteq> CHR ''/'' \<and> c \<noteq> CHR ''?'' \<and> c \<noteq> CHR ''#'')"

definition normalize_spec :: "string \<Rightarrow> string" where
  "normalize_spec e =
     (case split_scheme (rstrip (CHR ''/'') e) of
        (p, r) \<Rightarrow> p @ lower (takeWhile in_host r) @ dropWhile in_host r)"

definition tenantKey_spec :: "world \<Rightarrow> string \<Rightarrow> string \<Rightarrow> string" where
  "tenantKey_spec w u e = sha256_hexdigest w (lower u @ ''@'' @ normalize_spec e)"

section \<open>The state after a successful init request\<close>

text \<open>
  The state a successful init request leaves behind, seen from the next request of the
  same tenant and device: the session \<open>sid\<close> is active, was accessed at \<open>t\<close>, later than
  every other session, carries the keys and the hashes of the request, is the document
  \<open>get_session\<close> answers for \<open>sid\<close>, and has an agent.
\<close>

definition restorable ::
  "world \<Rightarrow> string \<Rightarrow> string \<Rightarrow> string \<Rightarrow> string \<Rightarrow> string \<Rightarrow> string \<Rightarrow> datetime \<Rightarrow> string
   \<Rightarrow> server \<Rightarrow> bool" where
  "restorable w url uname ua ip p api_key t sid st =
     (sid \<noteq> [] \<and> active_agents st sid \<noteq> None \<and>
      (\<exists>s \<in> set (sessions_collection st).
          session_id s = sid \<and> is_active s \<and> last_accessed s = t \<and>
          user_identifier s = generate_user_identifier w uname url \<and>
          browser_fingerprint s = generate_browser_fingerprint w ua ip \<and>
          password_hash s = hash_credential w p \<and>
          google_api_key_hash s = hash_credential w api_key \<and>
          get_session st sid = Some s \<and>
          (\<forall>x \<in> set (sessions_collection st). x \<noteq> s \<longrightarrow> last_accessed x < t)))"

section \<open>Lemmas on the store\<close>

lemma latest_mem: "latest b ss \<in> insert b (set ss)"
  by (induction ss arbitrary: b) auto

lemma latest_ge: "last_accessed b \<le> last_accessed (latest b ss)"
proof (induction ss arbitrary: b)
  case Nil
  show ?case by simp
next
  case (Cons s ss)
  have "last_accessed (if last_accessed b < last_accessed s then s else b)
        \<le> last_accessed (latest (if last_accessed b < last_accessed s then s else b) ss)"
    by (rule Cons.IH)
  then show ?case by (auto split: if_splits)
qed

lemma latest_max: "x \<in> set ss \<Longrightarrow> last_accessed x \<le> last_accessed (latest b ss)"
proof (induction ss arbitrary: b)
  case Nil
  then show ?case by simp
next
  case (Cons s ss)
  show ?case
  proof (cases "x = s")
    case True
    have "last_accessed (if last_accessed b < last_accessed s then s else b)
          \<le> last_accessed (latest b (s # ss))"
      using latest_ge [of "if last_accessed b < last_accessed s then s else b" ss] by simp
    with True show ?thesis by (auto split: if_splits)
  next
    case False
    with Cons.prems have "x \<in> set ss" by simp
    then show ?thesis using Cons.IH by simp
  qed
qed

lemma find_one_latest_Some:
  "find_one_latest q docs = Some s \<Longrightarrow> s \<in> set docs \<and> q s"
proof -
  assume a: "find_one_latest q docs = Some s"
  then obtain y ys where f: "filter q docs = y # ys" and s: "s = latest y ys"
    by (auto simp: find_one_latest_def split: list.splits)
  have "s \<in> set (filter q docs)" using latest_mem [of y ys] f s by auto
  then show ?thesis by simp
qed

lemma find_one_latest_None:
  "find_one_latest q docs = None \<longleftrightarrow> (\<forall>s \<in> set docs. \<not> q s)"
proof (cases "filter q docs")
  case Nil
  then show ?thesis by (simp add: find_one_latest_def filter_empty_conv)
next
  case (Cons y ys)
  then have "y \<in> set (filter q docs)" by simp
  then have "y \<in> set docs \<and> q y" by simp
  with Cons show ?thesis by (auto simp: find_one_latest_def)
qed

lemma find_one_latest_max:
  "find_one_latest q docs = Some s \<Longrightarrow> x \<in> set docs \<Longrightarrow> q x \<Longrightarrow> last_accessed x \<le> last_accessed s"
proof -
  assume a: "find_one_latest q docs = Some s" and x: "x \<in> set docs" "q x"
  then obtain y ys where f: "filter q docs = y # ys" and s: "s = latest y ys"
    by (auto simp: find_one_latest_def split: list.splits)
  from x have "x \<in> set (filter q docs)" by simp
  with f have "x = y \<or> x \<in> set ys" by auto
  then show ?thesis using latest_ge [of y ys] latest_max [of x ys y] s by auto
qed

lemma find_one_latest_strict:
  assumes "s \<in> set docs" "q s"
    and "\<And>x. x \<in> set docs \<Longrightarrow> q x \<Longrightarrow> x \<noteq> s \<Longrightarrow> last_accessed x < last_accessed s"
  shows "find_one_latest q docs = Some s"
proof -
  from assms(1,2) obtain r where r: "find_one_latest q docs = Some r"
    using find_one_latest_None [of q docs] by (cases "find_one_latest q docs") auto
  have rs: "r \<in> set docs \<and> q r" using find_one_latest_Some [OF r] .
  have "last_accessed s \<le> last_accessed r" using find_one_latest_max [OF r assms(1,2)] .
  then have "r = s" using assms(3) [of r] rs by force
  with r show ?thesis by simp
qed

lemma get_session_Some:
  "get_session d sid = Some s \<Longrightarrow> s \<in> set (sessions_collection d) \<and> session_id s = sid \<and> is_active s"
  by (auto simp: get_session_def find_Some_iff)

lemma get_session_None:
  "get_session d sid = None \<longleftrightarrow> (\<forall>s \<in> set (sessions_collection d). \<not> (session_id s = sid \<and> is_active s))"
  by (auto simp: get_session_def find_None_iff)

lemma get_session_distinct:
  "distinct (map session_id (sessions_collection d)) \<Longrightarrow> s \<in> set (sessions_collection d) \<Longrightarrow>
   is_active s \<Longrightarrow> get_session d (session_id s) = Some s"
proof -
  assume d: "distinct (map session_id (sessions_collection d))" and s: "s \<in> set (sessions_collection d)" "is_active s"
  then obtain r where r: "get_session d (session_id s) = Some r"
    using get_session_None [of d "session_id s"] by (cases "get_session d (session_id s)") auto
  from get_session_Some [OF r] have "r \<in> set (sessions_collection d)" "session_id r = session_id s" by auto
  with d s have "r = s" by (meson distinct_map inj_onD)
  with r show ?thesis by simp
qed

lemmas example_simps = example_world_def empty_server_def example_call_def example_init_def example_chat_def
  init_session_def init_checks_def init_try_def create_new_session_def restore_existing_def session_token_login_def
  create_session_def find_existing_session_def find_one_latest_def verify_credentials_def
  get_session_def update_session_access_def generate_user_identifier_def hash_credential_def
  generate_browser_fingerprint_def truthy_def py_or_def the_str_def lower_def lower_char_def rstrip_def
  timedelta_def Let_def

lemmas example_chat_simps = example_simps example_session_def example_message_def example_server_def
  chat_with_agent_def chat_admitted_def chat_reply_def chat_failed_def chat_rate_limit_def
  recent_requests_def seconds_def sm_store_chat_message_def store_chat_message_def strip_def isspace_def

lemma example_server_reached:
  "snd (chat_with_agent (example_call 1000000 ''M1'') (example_chat ''S1'' ''hello'')
         (snd (init_session example_world (example_call 0 ''S1'') (example_init ''pw1'') empty_server)))
   = example_server"
  by (simp add: example_chat_simps)

section \<open>The chat view\<close>

lemma sm_store_frame:
  "sm_store_chat_message t i1 i2 sid um ar st = (r, st') \<Longrightarrow>
   rate_limits st' = rate_limits st \<and> active_agents st' = active_agents st \<and>
   sessions_collection st' = sessions_collection st"
  by (auto simp: sm_store_chat_message_def store_chat_message_def
           split: option.splits sum.splits prod.splits)

lemma chat_failed_frame:
  "rate_limits (snd (chat_failed c sid ui st)) = rate_limits st \<and>
   active_agents (snd (chat_failed c sid ui st)) = active_agents st"
proof -
  obtain r st' where e: "sm_store_chat_message (now c) (uuid4 c) (uuid4_second c) sid ui
             ''An error occurred. Please try again.'' st = (r, st')" by (cases "sm_store_chat_message (now c) (uuid4 c) (uuid4_second c) sid ui
             ''An error occurred. Please try again.'' st") 
  from sm_store_frame [OF e] e show ?thesis
    by (simp add: chat_failed_def split: option.splits)
qed

lemma chat_reply_frame:
  "rate_limits (snd (chat_reply c sid ui st)) = rate_limits st \<and>
   active_agents (snd (chat_reply c sid ui st)) = active_agents st"
proof (cases "agent_chat c")
  case None
  then show ?thesis using chat_failed_frame [of c sid ui st] by (simp add: chat_reply_def)
next
  case (Some answer)
  obtain r st' where e: "sm_store_chat_message (now c) (uuid4 c) (uuid4_second c) sid ui answer st = (r, st')"
    by (cases "sm_store_chat_message (now c) (uuid4 c) (uuid4_second c) sid ui answer st")
  from sm_store_frame [OF e] chat_failed_frame [of c sid ui st'] e Some show ?thesis
    by (simp add: chat_reply_def split: option.splits)
qed

lemma chat_admitted_frame:
  "rate_limits (snd (chat_admitted c req st)) = rate_limits st \<and>
   active_agents (snd (chat_admitted c req st)) = active_agents st"
  using chat_reply_frame [of c "the_str (json_body req ''session_id'')"
          "strip (the_str (json_body req ''user_input''))"
          "update_session_access (now c) (the_str (json_body req ''session_id'')) st"]
  by (simp add: chat_admitted_def Let_def update_session_access_def split: option.splits)

lemma chat_failed_status: "snd (fst (chat_failed c sid ui st)) = 500"
  by (simp add: chat_failed_def split: prod.splits option.splits)

lemma chat_reply_status: "snd (fst (chat_reply c sid ui st)) \<noteq> 429"
  using chat_failed_status by (simp add: chat_reply_def split: prod.splits option.splits)

lemma chat_admitted_status: "snd (fst (chat_admitted c req st)) \<noteq> 429"
  using chat_reply_status by (simp add: chat_admitted_def Let_def split: option.splits)

text \<open>After a restart the store and the agents are empty: an admitted, well-formed chat
  request for any session id is answered 404.\<close>

lemma chat_after_server_start:
  assumes "json_body req ''session_id'' = Some sid" and "sid \<noteq> []"
    and "json_body req ''user_input'' = Some text" and "text \<noteq> []"
    and "length (strip text) \<le> 2000"
  shows "fst (chat_with_agent c req (server_start t d)) =
           (Error ''Invalid or expired session. Please reconnect.'', 404)"
  using assms
  by (simp add: chat_with_agent_def chat_rate_limit_def chat_admitted_def server_start_def
        clear_all_sessions_def get_session_def truthy_def the_str_def Let_def)

text \<open>
  Claim C1, as the code has it. The view looks the session up only after three earlier
  guards, so the claim holds for the requests that pass them and not for every request
  with a session id. A chat request that the rate limiter admits and that carries a
  non-empty session id and a non-empty input of at most 2000 characters after \<open>strip\<close>:
  when no active session document has that id the
  answer is 404 "Invalid or expired session" and nothing but the rate limiter's
  dictionary changes; when an active session exists and \<open>active_agents\<close> has no entry
  for the id the answer is 410 with \<open>reconnect_required\<close>, no agent is built and no
  message is stored. After \<open>clear_all_sessions\<close> the answer is 404; after the agents alone
  are dropped (all of them, or this one by \<open>clear_session\<close>) it is 410.
\<close>

theorem chat_session_errors:
  assumes "chat_rate_limit (remote_addr req) (now c) (rate_limits st) = Some limits"
    and "json_body req ''session_id'' = Some sid" and "sid \<noteq> []"
    and "json_body req ''user_input'' = Some text" and "text \<noteq> []"
    and "length (strip text) \<le> 2000"
  shows "((\<forall>s \<in> set (sessions_collection st). \<not> (session_id s = sid \<and> is_active s)) \<longrightarrow>
            chat_with_agent c req st =
              ((Error ''Invalid or expired session. Please reconnect.'', 404),
               st\<lparr>rate_limits := limits\<rparr>)) \<and>
         ((\<exists>s \<in> set (sessions_collection st). session_id s = sid \<and> is_active s) \<and>
          active_agents st sid = None \<longrightarrow>
            fst (chat_with_agent c req st) =
              (Reconnect ''Session found but agent not active. Please reconnect to restore your session.'', 410) \<and>
            active_agents (snd (chat_with_agent c req st)) = active_agents st \<and>
            messages_collection (snd (chat_with_agent c req st)) = messages_collection st) \<and>
         fst (chat_with_agent c req (clear_all_sessions st)) =
           (Error ''Invalid or expired session. Please reconnect.'', 404) \<and>
         ((\<exists>s \<in> set (sessions_collection st). session_id s = sid \<and> is_active s) \<longrightarrow>
            fst (chat_with_agent c req (st\<lparr>active_agents := Map.empty\<rparr>)) =
              (Reconnect ''Session found but agent not active. Please reconnect to restore your session.'', 410) \<and>
            fst (chat_with_agent c req (snd (clear_session req st))) =
              (Reconnect ''Session found but agent not active. Please reconnect to restore your session.'', 410))"
proof -
  have t: "truthy (json_body req ''session_id'')" "truthy (json_body req ''user_input'')"
    "the_str (json_body req ''session_id'') = sid" "the_str (json_body req ''user_input'') = text"
    using assms by (simp_all add: truthy_def the_str_def)
  have adm: "\<And>s. rate_limits s = rate_limits st \<Longrightarrow>
     chat_with_agent c req s = chat_admitted c req (s\<lparr>rate_limits := limits\<rparr>)"
    using assms(1) by (simp add: chat_with_agent_def)
  have nf: "\<And>s. get_session s sid = None \<Longrightarrow>
     chat_admitted c req s = ((Error ''Invalid or expired session. Please reconnect.'', 404), s)"
    using t assms(6) by (simp add: chat_admitted_def)
  have rc: "\<And>s x. get_session s sid = Some x \<Longrightarrow> active_agents s sid = None \<Longrightarrow>
     chat_admitted c req s =
       ((Reconnect ''Session found but agent not active. Please reconnect to restore your session.'', 410),
        update_session_access (now c) sid s)"
    using t assms(6) by (simp add: chat_admitted_def update_session_access_def)
  have gs: "\<And>s f. get_session (s\<lparr>rate_limits := f\<rparr>) sid = get_session s sid"
    by (simp add: get_session_def)
  have ga: "\<And>s f. get_session (s\<lparr>active_agents := f\<rparr>) sid = get_session s sid"
    by (simp add: get_session_def)
  have ex: "(\<exists>s \<in> set (sessions_collection st). session_id s = sid \<and> is_active s) \<Longrightarrow>
     \<exists>x. get_session st sid = Some x"
    using get_session_None [of st sid] by (cases "get_session st sid") auto
  have c1: "(\<forall>s \<in> set (sessions_collection st). \<not> (session_id s = sid \<and> is_active s)) \<longrightarrow>
            chat_with_agent c req st =
              ((Error ''Invalid or expired session. Please reconnect.'', 404),
               st\<lparr>rate_limits := limits\<rparr>)"
  proof
    assume "\<forall>s \<in> set (sessions_collection st). \<not> (session_id s = sid \<and> is_active s)"
    then have "get_session (st\<lparr>rate_limits := limits\<rparr>) sid = None"
      by (simp add: gs get_session_None)
    then show "chat_with_agent c req st =
        ((Error ''Invalid or expired session. Please reconnect.'', 404), st\<lparr>rate_limits := limits\<rparr>)"
      using adm [of st] nf by simp
  qed
  have c2: "(\<exists>s \<in> set (sessions_collection st). session_id s = sid \<and> is_active s) \<and>
          active_agents st sid = None \<longrightarrow>
            fst (chat_with_agent c req st) =
              (Reconnect ''Session found but agent not active. Please reconnect to restore your session.'', 410) \<and>
            active_agents (snd (chat_with_agent c req st)) = active_agents st \<and>
            messages_collection (snd (chat_with_agent c req st)) = messages_collection st"
  proof
    assume a: "(\<exists>s \<in> set (sessions_collection st). session_id s = sid \<and> is_active s) \<and>
          active_agents st sid = None"
    then obtain x where "get_session st sid = Some x" using ex by blast
    then have "chat_with_agent c req st =
       ((Reconnect ''Session found but agent not active. Please reconnect to restore your session.'', 410),
        update_session_access (now c) sid (st\<lparr>rate_limits := limits\<rparr>))"
      using adm [of st] rc [of "st\<lparr>rate_limits := limits\<rparr>" x] a by (simp add: gs)
    then show "fst (chat_with_agent c req st) =
              (Reconnect ''Session found but agent not active. Please reconnect to restore your session.'', 410) \<and>
            active_agents (snd (chat_with_agent c req st)) = active_agents st \<and>
            messages_collection (snd (chat_with_agent c req st)) = messages_collection st"
      by (simp add: update_session_access_def)
  qed
  have c3: "fst (chat_with_agent c req (clear_all_sessions st)) =
           (Error ''Invalid or expired session. Please reconnect.'', 404)"
  proof -
    have "get_session ((clear_all_sessions st)\<lparr>rate_limits := limits\<rparr>) sid = None"
      by (simp add: get_session_def clear_all_sessions_def)
    then show ?thesis
      using adm [of "clear_all_sessions st"] nf by (simp add: clear_all_sessions_def)
  qed
  have c4: "(\<exists>s \<in> set (sessions_collection st). session_id s = sid \<and> is_active s) \<longrightarrow>
            fst (chat_with_agent c req (st\<lparr>active_agents := Map.empty\<rparr>)) =
              (Reconnect ''Session found but agent not active. Please reconnect to restore your session.'', 410) \<and>
            fst (chat_with_agent c req (snd (clear_session req st))) =
              (Reconnect ''Session found but agent not active. Please reconnect to restore your session.'', 410)"
  proof
    assume "\<exists>s \<in> set (sessions_collection st). session_id s = sid \<and> is_active s"
    then obtain x where x: "get_session st sid = Some x" using ex by blast
    then have "get_session (st\<lparr>active_agents := Map.empty, rate_limits := limits\<rparr>) sid = Some x"
      by (simp add: get_session_def)
    then have p: "fst (chat_with_agent c req (st\<lparr>active_agents := Map.empty\<rparr>)) =
              (Reconnect ''Session found but agent not active. Please reconnect to restore your session.'', 410)"
      using adm [of "st\<lparr>active_agents := Map.empty\<rparr>"]
        rc [of "st\<lparr>active_agents := Map.empty, rate_limits := limits\<rparr>" x] by simp
    have cs: "snd (clear_session req st) = st\<lparr>active_agents := (active_agents st)(sid := None)\<rparr>"
      using t by (simp add: clear_session_def)
    from x have "get_session (st\<lparr>active_agents := (active_agents st)(sid := None), rate_limits := limits\<rparr>) sid = Some x"
      by (simp add: get_session_def)
    then have "fst (chat_with_agent c req (snd (clear_session req st))) =
              (Reconnect ''Session found but agent not active. Please reconnect to restore your session.'', 410)"
      using adm [of "st\<lparr>active_agents := (active_agents st)(sid := None)\<rparr>"]
        rc [of "st\<lparr>active_agents := (active_agents st)(sid := None), rate_limits := limits\<rparr>" x] cs
      by simp
    with p show "fst (chat_with_agent c req (st\<lparr>active_agents := Map.empty\<rparr>)) =
              (Reconnect ''Session found but agent not active. Please reconnect to restore your session.'', 410) \<and>
            fst (chat_with_agent c req (snd (clear_session req st))) =
              (Reconnect ''Session found but agent not active. Please reconnect to restore your session.'', 410)"
      by simp
  qed
  show ?thesis by (rule conjI [OF c1 conjI [OF c2 conjI [OF c3 c4]]])
qed

theorem chat_session_errors_witness:
  "fst (chat_with_agent (example_call 2000000 ''M2'') (example_chat ''S1'' ''hello'')
         (clear_all_sessions example_server)) =
     (Error ''Invalid or expired session. Please reconnect.'', 404) \<and>
   fst (chat_with_agent (example_call 2000000 ''M2'') (example_chat ''S1'' ''hello'')
         (example_server\<lparr>active_agents := Map.empty\<rparr>)) =
     (Reconnect ''Session found but agent not active. Please reconnect to restore your session.'', 410) \<and>
   fst (chat_with_agent (example_call 2000000 ''M2'') (example_chat ''S1'' ''hello'') example_server) =
     (Chat ''S1'' ''Hi!'', 200)"
proof -
  have adm: "chat_rate_limit (remote_addr (example_chat ''S1'' ''hello'')) (now (example_call 2000000 ''M2''))
       (rate_limits example_server) = Some [''10.0.0.1'' \<mapsto> [1000000, 2000000]]"
    by (simp add: example_chat_simps)
  have ok: "fst (chat_with_agent (example_call 2000000 ''M2'') (example_chat ''S1'' ''hello'') example_server) =
     (Chat ''S1'' ''Hi!'', 200)"
    by (simp add: example_chat_simps)
  have ex: "\<exists>s \<in> set (sessions_collection example_server). session_id s = ''S1'' \<and> is_active s"
    by (simp add: example_chat_simps)
  show ?thesis
    using chat_session_errors [OF adm, of "''S1''" "''hello''"] ok ex
    by (simp add: example_chat_def strip_def isspace_def)
qed

text \<open>
  Claim C1 as worded, for every chat request carrying a session id, fails. No session
  document has the id \<open>nobody\<close>, yet a request with that id is answered 400 when its input
  is empty, 400 when its input has 2001 characters, and 429 when its address has used the
  ten requests of the minute: \<open>chat_with_agent\<close> returns at each of these guards before it
  calls \<open>get_session\<close>, so none of the three requests gets the 404 of the claim.
\<close>

theorem chat_unknown_session_guards_counterexample:
  "json_body (example_chat ''nobody'' []) ''session_id'' = Some ''nobody'' \<and>
   filter (\<lambda>s. session_id s = ''nobody'' \<and> is_active s) (sessions_collection example_server) = [] \<and>
   filter (\<lambda>s. session_id s = ''nobody'' \<and> is_active s) (sessions_collection full_server) = [] \<and>
   fst (chat_with_agent (example_call 2000000 ''M2'') (example_chat ''nobody'' []) example_server) =
     (Error ''Session ID and user input are required.'', 400) \<and>
   fst (chat_with_agent (example_call 2000000 ''M2'')
         (example_chat ''nobody'' (replicate 2001 (CHR ''a''))) example_server) =
     (Error ''Message too long. Please limit to 2000 characters.'', 400) \<and>
   fst (chat_with_agent (example_call 11000000 ''M2'') (example_chat ''nobody'' ''hello'') full_server) =
     (Error ''Rate limit exceeded. Please try again later.'', 429)"
  by (simp add: example_chat_simps full_server_def)

text \<open>
  Claim C10. The chat view runs the rate limiter before it looks at the session id or the
  input. A refused request changes nothing. An admitted request leaves the pruned list
  of its address extended by its own time stamp in \<open>app.rate_limits\<close>, whatever the view
  answers afterwards: 400 for a missing session id or input, 400 for an input over 2000
  characters, 404 for an unknown session.
\<close>

theorem chat_budget:
  "(chat_rate_limit (remote_addr req) (now c) (rate_limits st) = None \<longrightarrow>
      chat_with_agent c req st = ((Error ''Rate limit exceeded. Please try again later.'', 429), st)) \<and>
   (\<forall>limits. chat_rate_limit (remote_addr req) (now c) (rate_limits st) = Some limits \<longrightarrow>
      rate_limits (snd (chat_with_agent c req st)) = limits \<and>
      limits (remote_addr req) =
        Some ((case rate_limits st (remote_addr req) of None \<Rightarrow> []
               | Some last_requests \<Rightarrow> recent_requests (now c) last_requests) @ [now c]) \<and>
      snd (fst (chat_with_agent c req st)) \<noteq> 429 \<and>
      (\<not> truthy (json_body req ''session_id'') \<or> \<not> truthy (json_body req ''user_input'') \<longrightarrow>
         fst (chat_with_agent c req st) = (Error ''Session ID and user input are required.'', 400)) \<and>
      (truthy (json_body req ''session_id'') \<and> truthy (json_body req ''user_input'') \<and>
       2000 < length (strip (the_str (json_body req ''user_input''))) \<longrightarrow>
         fst (chat_with_agent c req st) = (Error ''Message too long. Please limit to 2000 characters.'', 400)) \<and>
      (truthy (json_body req ''session_id'') \<and> truthy (json_body req ''user_input'') \<and>
       length (strip (the_str (json_body req ''user_input''))) \<le> 2000 \<and>
       get_session st (the_str (json_body req ''session_id'')) = None \<longrightarrow>
         fst (chat_with_agent c req st) = (Error ''Invalid or expired session. Please reconnect.'', 404)))"
proof (intro conjI allI impI)
  assume "chat_rate_limit (remote_addr req) (now c) (rate_limits st) = None"
  then show "chat_with_agent c req st = ((Error ''Rate limit exceeded. Please try again later.'', 429), st)"
    by (simp add: chat_with_agent_def)
next
  fix limits assume a: "chat_rate_limit (remote_addr req) (now c) (rate_limits st) = Some limits"
  then have cw: "chat_with_agent c req st = chat_admitted c req (st\<lparr>rate_limits := limits\<rparr>)"
    by (simp add: chat_with_agent_def)
  show "rate_limits (snd (chat_with_agent c req st)) = limits"
    using chat_admitted_frame [of c req "st\<lparr>rate_limits := limits\<rparr>"] cw by simp
  show "limits (remote_addr req) =
        Some ((case rate_limits st (remote_addr req) of None \<Rightarrow> []
               | Some last_requests \<Rightarrow> recent_requests (now c) last_requests) @ [now c])"
    using a by (auto simp: chat_rate_limit_def Let_def split: option.splits if_splits)
  show "snd (fst (chat_with_agent c req st)) \<noteq> 429"
    using chat_admitted_status [of c req "st\<lparr>rate_limits := limits\<rparr>"] cw by simp
  { assume "\<not> truthy (json_body req ''session_id'') \<or> \<not> truthy (json_body req ''user_input'')"
    then show "fst (chat_with_agent c req st) = (Error ''Session ID and user input are required.'', 400)"
      using cw by (auto simp: chat_admitted_def) }
  { assume "truthy (json_body req ''session_id'') \<and> truthy (json_body req ''user_input'') \<and>
       2000 < length (strip (the_str (json_body req ''user_input'')))"
    then show "fst (chat_with_agent c req st) = (Error ''Message too long. Please limit to 2000 characters.'', 400)"
      using cw by (simp add: chat_admitted_def) }
  { assume "truthy (json_body req ''session_id'') \<and> truthy (json_body req ''user_input'') \<and>
       length (strip (the_str (json_body req ''user_input''))) \<le> 2000 \<and>
       get_session st (the_str (json_body req ''session_id'')) = None"
    then show "fst (chat_with_agent c req st) = (Error ''Invalid or expired session. Please reconnect.'', 404)"
      using cw by (simp add: chat_admitted_def get_session_def) }
qed

theorem chat_budget_witness:
  "rate_limits (snd (chat_with_agent (example_call 2000000 ''M2'')
       (example_chat ''S1'' [] ) example_server)) ''10.0.0.1'' = Some [1000000, 2000000] \<and>
   fst (chat_with_agent (example_call 2000000 ''M2'') (example_chat ''S1'' []) example_server) =
     (Error ''Session ID and user input are required.'', 400) \<and>
   rate_limits (snd (chat_with_agent (example_call 2000000 ''M2'')
       (example_chat ''nobody'' ''hello'') example_server)) ''10.0.0.1'' = Some [1000000, 2000000] \<and>
   fst (chat_with_agent (example_call 2000000 ''M2'') (example_chat ''nobody'' ''hello'') example_server) =
     (Error ''Invalid or expired session. Please reconnect.'', 404) \<and>
   chat_with_agent (example_call 11000000 ''M2'') (example_chat ''S1'' ''hello'') full_server =
     ((Error ''Rate limit exceeded. Please try again later.'', 429), full_server)"
proof -
  have a: "chat_rate_limit (remote_addr (example_chat ''S1'' [])) (now (example_call 2000000 ''M2''))
       (rate_limits example_server) = Some [''10.0.0.1'' \<mapsto> [1000000, 2000000]]"
    by (simp add: example_chat_simps)
  have b: "chat_rate_limit (remote_addr (example_chat ''nobody'' ''hello'')) (now (example_call 2000000 ''M2''))
       (rate_limits example_server) = Some [''10.0.0.1'' \<mapsto> [1000000, 2000000]]"
    by (simp add: example_chat_simps)
  have n: "chat_rate_limit (remote_addr (example_chat ''S1'' ''hello'')) (now (example_call 11000000 ''M2''))
       (rate_limits full_server) = None"
    by (simp add: example_chat_simps full_server_def)
  have g: "get_session example_server ''nobody'' = None"
    by (simp add: example_chat_simps)
  show ?thesis
    using chat_budget [of "example_chat ''S1'' []" "example_call 2000000 ''M2''" example_server]
      chat_budget [of "example_chat ''nobody'' ''hello''" "example_call 2000000 ''M2''" example_server]
      chat_budget [of "example_chat ''S1'' ''hello''" "example_call 11000000 ''M2''" full_server]
      a b n g
    by (simp add: example_chat_def truthy_def the_str_def strip_def isspace_def)
qed

section \<open>clear\_session\<close>

text \<open>
  Claim C8. \<open>clear_session\<close> removes the entry of the session id from \<open>active_agents\<close>
  and nothing else: the other agents, the session documents (with their flags and time
  stamps), the messages and the rate limiter's dictionary are unchanged, and the history
  of the session is answered as before.
\<close>

theorem clear_session_frame:
  assumes "json_body req ''session_id'' = Some sid" and "sid \<noteq> []"
  shows "fst (clear_session req st) = (Message (''Session '' @ sid @ '' cleared successfully.''), 200) \<and>
         active_agents (snd (clear_session req st)) sid = None \<and>
         (\<forall>k. k \<noteq> sid \<longrightarrow> active_agents (snd (clear_session req st)) k = active_agents st k) \<and>
         sessions_collection (snd (clear_session req st)) = sessions_collection st \<and>
         messages_collection (snd (clear_session req st)) = messages_collection st \<and>
         rate_limits (snd (clear_session req st)) = rate_limits st \<and>
         get_session (snd (clear_session req st)) sid = get_session st sid \<and>
         get_chat_history (snd (clear_session req st)) sid n = get_chat_history st sid n \<and>
         get_chat_history_view r sid (snd (clear_session req st)) = get_chat_history_view r sid st"
proof -
  have cs: "clear_session req st =
      ((Message (''Session '' @ sid @ '' cleared successfully.''), 200),
       st\<lparr>active_agents := (active_agents st)(sid := None)\<rparr>)"
    using assms by (simp add: clear_session_def truthy_def the_str_def)
  have h: "\<And>k f. get_chat_history (st\<lparr>active_agents := f\<rparr>) sid k = get_chat_history st sid k"
    by (simp add: get_chat_history_def)
  show ?thesis
    unfolding cs by (simp add: get_session_def get_chat_history_view_def h split: option.splits)
qed

theorem clear_session_frame_witness:
  "fst (clear_session (example_chat ''S1'' []) example_server) =
     (Message ''Session S1 cleared successfully.'', 200) \<and>
   active_agents (snd (clear_session (example_chat ''S1'' []) example_server)) ''S1'' = None \<and>
   active_agents example_server ''S1'' \<noteq> None \<and>
   get_session (snd (clear_session (example_chat ''S1'' []) example_server)) ''S1'' = Some example_session \<and>
   get_chat_history_view (example_chat ''S1'' []) ''S1'' (snd (clear_session (example_chat ''S1'' []) example_server)) =
     (History ''S1'' [\<lparr>pair_timestamp = 1000000, user_message = ''hello'', ai_response = ''Hi!''\<rparr>] 1, 200)"
proof -
  have j: "json_body (example_chat ''S1'' []) ''session_id'' = Some ''S1''"
    by (simp add: example_chat_def)
  have h: "get_chat_history_view (example_chat ''S1'' []) ''S1'' example_server =
     (History ''S1'' [\<lparr>pair_timestamp = 1000000, user_message = ''hello'', ai_response = ''Hi!''\<rparr>] 1, 200)"
    by (simp add: example_chat_simps get_chat_history_view_def get_chat_history_def limit_cursor_def history_of_def)
  have g: "get_session example_server ''S1'' = Some example_session" "active_agents example_server ''S1'' \<noteq> None"
    by (simp_all add: example_server_def get_session_def example_session_def)
  show ?thesis
    using clear_session_frame [OF j, of example_server 20 "example_chat ''S1'' []"] h g by simp
qed

section \<open>The restoration matcher\<close>

lemma find_existing_session_doc:
  assumes "find_existing_session w t ua ip url uname uid d = Some sid"
  shows "\<exists>s \<in> set (sessions_collection d). session_id s = sid \<and> is_active s \<and>
           t - timedelta 30 \<le> last_accessed s"
proof (cases "truthy uid \<and> find_one_latest
                    (\<lambda>s. user_id s = uid \<and> erpnext_url s = url \<and>
                         t - timedelta 30 \<le> last_accessed s \<and> is_active s)
                    (sessions_collection d) \<noteq> None")
  case True
  then obtain s where s: "find_one_latest
                    (\<lambda>s. user_id s = uid \<and> erpnext_url s = url \<and>
                         t - timedelta 30 \<le> last_accessed s \<and> is_active s)
                    (sessions_collection d) = Some s" by auto
  with True assms have "session_id s = sid" by (simp add: find_existing_session_def Let_def)
  with find_one_latest_Some [OF s] show ?thesis by auto
next
  case False
  with assms obtain s where s: "find_one_latest
                     (\<lambda>s. user_identifier s = generate_user_identifier w uname url \<and>
                          browser_fingerprint s = generate_browser_fingerprint w ua ip \<and>
                          t - timedelta 30 \<le> last_accessed s \<and> is_active s)
                     (sessions_collection d) = Some s" and "session_id s = sid"
    by (auto simp: find_existing_session_def Let_def split: option.splits if_splits)
  with find_one_latest_Some [OF s] show ?thesis by auto
qed

lemma find_existing_session_found:
  assumes "s \<in> set (sessions_collection d)" "is_active s" "t - timedelta 30 \<le> last_accessed s"
    "user_identifier s = generate_user_identifier w uname url"
    "browser_fingerprint s = generate_browser_fingerprint w ua ip"
  shows "find_existing_session w t ua ip url uname uid d \<noteq> None"
proof -
  have "find_one_latest
                     (\<lambda>s. user_identifier s = generate_user_identifier w uname url \<and>
                          browser_fingerprint s = generate_browser_fingerprint w ua ip \<and>
                          t - timedelta 30 \<le> last_accessed s \<and> is_active s)
                     (sessions_collection d) \<noteq> None"
    using assms by (auto simp: find_one_latest_None)
  then show ?thesis
    by (auto simp: find_existing_session_def Let_def split: option.splits)
qed

lemma find_existing_session_latest:
  assumes "s \<in> set (sessions_collection d)" "is_active s" "t - timedelta 30 \<le> last_accessed s"
    "user_identifier s = generate_user_identifier w uname url"
    "browser_fingerprint s = generate_browser_fingerprint w ua ip"
    "\<not> truthy uid"
    "\<And>x. x \<in> set (sessions_collection d) \<Longrightarrow> x \<noteq> s \<Longrightarrow>
        user_identifier x = generate_user_identifier w uname url \<Longrightarrow>
        browser_fingerprint x = generate_browser_fingerprint w ua ip \<Longrightarrow>
        is_active x \<Longrightarrow> t - timedelta 30 \<le> last_accessed x \<Longrightarrow> last_accessed x < last_accessed s"
  shows "find_existing_session w t ua ip url uname uid d = Some (session_id s)"
proof -
  have "find_one_latest
                     (\<lambda>s. user_identifier s = generate_user_identifier w uname url \<and>
                          browser_fingerprint s = generate_browser_fingerprint w ua ip \<and>
                          t - timedelta 30 \<le> last_accessed s \<and> is_active s)
                     (sessions_collection d) = Some s"
    by (rule find_one_latest_strict) (use assms in auto)
  then show ?thesis using assms(6) by (simp add: find_existing_session_def Let_def)
qed

text \<open>
  Claim C5. \<open>find_existing_session\<close> answers the id of an active session document whose
  \<open>last_accessed\<close> is not before \<open>now\<close> minus 30 days, so an id all of whose documents
  are older is never answered. A document inside the window that is active and has the
  tenant key and the fingerprint of the request makes the answer a session id, and its
  own id when no \<open>user_id\<close> is given and every other candidate was accessed earlier.
\<close>

theorem find_existing_session_window:
  "(find_existing_session w t ua ip url uname uid d = Some sid \<longrightarrow>
      (\<exists>s \<in> set (sessions_collection d). session_id s = sid \<and> is_active s \<and>
           \<not> last_accessed s < t - timedelta 30)) \<and>
   ((\<forall>x \<in> set (sessions_collection d). session_id x = sid \<longrightarrow> last_accessed x < t - timedelta 30) \<longrightarrow>
      find_existing_session w t ua ip url uname uid d \<noteq> Some sid) \<and>
   (s \<in> set (sessions_collection d) \<and> is_active s \<and> t - timedelta 30 \<le> last_accessed s \<and>
    user_identifier s = generate_user_identifier w uname url \<and>
    browser_fingerprint s = generate_browser_fingerprint w ua ip \<longrightarrow>
      find_existing_session w t ua ip url uname uid d \<noteq> None \<and>
      (\<not> truthy uid \<and>
       (\<forall>x \<in> set (sessions_collection d). x \<noteq> s \<and>
          user_identifier x = generate_user_identifier w uname url \<and>
          browser_fingerprint x = generate_browser_fingerprint w ua ip \<and>
          is_active x \<and> t - timedelta 30 \<le> last_accessed x \<longrightarrow> last_accessed x < last_accessed s) \<longrightarrow>
       find_existing_session w t ua ip url uname uid d = Some (session_id s)))"
proof -
  have a: "find_existing_session w t ua ip url uname uid d = Some sid \<longrightarrow>
      (\<exists>s \<in> set (sessions_collection d). session_id s = sid \<and> is_active s \<and>
           \<not> last_accessed s < t - timedelta 30)"
    using find_existing_session_doc [of w t ua ip url uname uid d sid] by force
  have b: "(\<forall>x \<in> set (sessions_collection d). session_id x = sid \<longrightarrow> last_accessed x < t - timedelta 30) \<longrightarrow>
      find_existing_session w t ua ip url uname uid d \<noteq> Some sid"
    using a by force
  have c: "s \<in> set (sessions_collection d) \<and> is_active s \<and> t - timedelta 30 \<le> last_accessed s \<and>
    user_identifier s = generate_user_identifier w uname url \<and>
    browser_fingerprint s = generate_browser_fingerprint w ua ip \<longrightarrow>
      find_existing_session w t ua ip url uname uid d \<noteq> None \<and>
      (\<not> truthy uid \<and>
       (\<forall>x \<in> set (sessions_collection d). x \<noteq> s \<and>
          user_identifier x = generate_user_identifier w uname url \<and>
          browser_fingerprint x = generate_browser_fingerprint w ua ip \<and>
          is_active x \<and> t - timedelta 30 \<le> last_accessed x \<longrightarrow> last_accessed x < last_accessed s) \<longrightarrow>
       find_existing_session w t ua ip url uname uid d = Some (session_id s))"
    using find_existing_session_found [of s d t w uname url ua ip uid]
      find_existing_session_latest [of s d t w uname url ua ip uid] by blast
  show ?thesis by (rule conjI [OF a conjI [OF b c]])
qed

theorem find_existing_session_window_witness:
  "find_existing_session example_world 2592000000000 ''UA-A'' ''10.0.0.1'' ''https://crm.example.com''
      ''alice'' None (window_server (- 1000000)) = None \<and>
   find_existing_session example_world 2592000000000 ''UA-A'' ''10.0.0.1'' ''https://crm.example.com''
      ''alice'' None (window_server 1000000) = Some ''S1''"
proof -
  have old: "\<forall>x \<in> set (sessions_collection (window_server (- 1000000))).
      session_id x = ''S1'' \<longrightarrow> last_accessed x < 2592000000000 - timedelta 30"
    by (simp add: window_server_def timedelta_def)
  have none: "find_existing_session example_world 2592000000000 ''UA-A'' ''10.0.0.1''
      ''https://crm.example.com'' ''alice'' None (window_server (- 1000000)) \<noteq> Some sid" for sid
    using find_existing_session_window [of example_world 2592000000000 "''UA-A''" "''10.0.0.1''"
        "''https://crm.example.com''" "''alice''" None "window_server (- 1000000)" sid]
    by (auto simp: window_server_def timedelta_def example_session_def)
  have s: "example_session\<lparr>last_accessed := 1000000\<rparr> \<in> set (sessions_collection (window_server 1000000))"
    by (simp add: window_server_def)
  have k: "user_identifier example_session = generate_user_identifier example_world ''alice'' ''https://crm.example.com''"
    "browser_fingerprint example_session = generate_browser_fingerprint example_world ''UA-A'' ''10.0.0.1''"
    by (simp_all add: example_simps example_session_def)
  have some: "find_existing_session example_world 2592000000000 ''UA-A'' ''10.0.0.1''
      ''https://crm.example.com'' ''alice'' None (window_server 1000000) = Some ''S1''"
    using find_existing_session_window [of example_world 2592000000000 "''UA-A''" "''10.0.0.1''"
        "''https://crm.example.com''" "''alice''" None "window_server 1000000" "''S1''"
        "example_session\<lparr>last_accessed := 1000000\<rparr>"] s k
    by (simp add: window_server_def timedelta_def example_session_def truthy_def)
  from none some show ?thesis by (cases "find_existing_session example_world 2592000000000 ''UA-A'' ''10.0.0.1''
      ''https://crm.example.com'' ''alice'' None (window_server (- 1000000))") auto
qed

section \<open>Deactivated sessions and the sweep\<close>

lemma update_one_ids: "map session_id (update_one q (\<lambda>s. s\<lparr>is_active := b\<rparr>) docs) = map session_id docs"
  by (induction docs) auto

lemma deactivate_distinct:
  "distinct (map session_id docs) \<Longrightarrow>
   x \<in> set (update_one (\<lambda>s. session_id s = sid) (\<lambda>s. s\<lparr>is_active := False\<rparr>) docs) \<Longrightarrow>
   session_id x = sid \<Longrightarrow> \<not> is_active x"
proof (induction docs)
  case Nil
  then show ?case by simp
next
  case (Cons d ds)
  show ?case
  proof (cases "session_id d = sid")
    case True
    with Cons.prems have "x = d\<lparr>is_active := False\<rparr> \<or> x \<in> set ds" by simp
    moreover have "x \<notin> set ds" using Cons.prems(1,3) True by auto
    ultimately show ?thesis by auto
  next
    case False
    with Cons show ?thesis by auto
  qed
qed

lemma cleanup_history_empty:
  assumes "x \<in> set (sessions_collection d)" "last_accessed x < t - timedelta days \<or> \<not> is_active x"
  shows "get_chat_history (snd (cleanup_expired_sessions t days d)) (session_id x) n = []"
proof -
  have x: "x \<in> set (expired_sessions t days d)" using assms by (simp add: expired_sessions_def)
  then have ne: "expired_sessions t days d \<noteq> []" by auto
  have "filter (\<lambda>m. msg_session_id m = session_id x)
          (filter (\<lambda>m. msg_session_id m \<notin> set (map session_id (expired_sessions t days d)))
             (messages_collection d)) = []"
    using x by (auto simp: filter_empty_conv)
  then show ?thesis using ne
    by (simp add: cleanup_expired_sessions_def Let_def get_chat_history_def limit_cursor_def)
qed

text \<open>
  Claim C7. \<open>get_session\<close> answers active documents only, and an id whose documents are
  all inactive is answered neither by \<open>get_session\<close> nor by \<open>find_existing_session\<close>;
  that is the state of an id after \<open>deactivate_session\<close> in a store of unique ids.
  \<open>get_chat_history\<close> does not look at the sessions: deactivating changes no answer of
  it, every stored message of the id is in its unlimited answer, and only after
  \<open>cleanup_expired_sessions\<close> is the history of an inactive session empty.
\<close>

theorem inactive_session_hidden:
  "(get_session d sid = Some s \<longrightarrow> is_active s) \<and>
   ((\<forall>x \<in> set (sessions_collection d). session_id x = sid \<longrightarrow> \<not> is_active x) \<longrightarrow>
      get_session d sid = None \<and>
      find_existing_session w t ua ip url uname uid d \<noteq> Some sid) \<and>
   (distinct (map session_id (sessions_collection d)) \<longrightarrow>
      get_session (deactivate_session sid d) sid = None \<and>
      find_existing_session w t ua ip url uname uid (deactivate_session sid d) \<noteq> Some sid) \<and>
   get_chat_history (deactivate_session sid d) sid n = get_chat_history d sid n \<and>
   (m \<in> set (messages_collection d) \<and> msg_session_id m = sid \<longrightarrow>
      history_of m \<in> set (get_chat_history d sid 0)) \<and>
   (x \<in> set (sessions_collection d) \<and> \<not> is_active x \<longrightarrow>
      get_chat_history (snd (cleanup_expired_sessions t days d)) (session_id x) n = [])"
proof -
  have a: "get_session d sid = Some s \<longrightarrow> is_active s"
    using get_session_Some [of d sid s] by blast
  have b: "(\<forall>x \<in> set (sessions_collection d). session_id x = sid \<longrightarrow> \<not> is_active x) \<longrightarrow>
      get_session d sid = None \<and> find_existing_session w t ua ip url uname uid d \<noteq> Some sid" for d :: "'a db_scheme"
    using find_existing_session_doc [of w t ua ip url uname uid d sid]
    by (auto simp: get_session_None)
  have c: "distinct (map session_id (sessions_collection d)) \<longrightarrow>
      get_session (deactivate_session sid d) sid = None \<and>
      find_existing_session w t ua ip url uname uid (deactivate_session sid d) \<noteq> Some sid"
  proof
    assume dist: "distinct (map session_id (sessions_collection d))"
    have "\<forall>x \<in> set (sessions_collection (deactivate_session sid d)). session_id x = sid \<longrightarrow> \<not> is_active x"
      using deactivate_distinct [OF dist] by (auto simp: deactivate_session_def)
    then show "get_session (deactivate_session sid d) sid = None \<and>
      find_existing_session w t ua ip url uname uid (deactivate_session sid d) \<noteq> Some sid"
      using b [of "deactivate_session sid d"] by blast
  qed
  have e: "get_chat_history (deactivate_session sid d) sid n = get_chat_history d sid n"
    by (simp add: get_chat_history_def deactivate_session_def)
  have f: "m \<in> set (messages_collection d) \<and> msg_session_id m = sid \<longrightarrow>
      history_of m \<in> set (get_chat_history d sid 0)"
    by (auto simp: get_chat_history_def limit_cursor_def)
  have g: "x \<in> set (sessions_collection d) \<and> \<not> is_active x \<longrightarrow>
      get_chat_history (snd (cleanup_expired_sessions t days d)) (session_id x) n = []"
    using cleanup_history_empty [of x d t days n] by blast
  show ?thesis by (rule conjI [OF a conjI [OF b conjI [OF c conjI [OF e conjI [OF f g]]]]])
qed

theorem inactive_session_hidden_witness:
  "get_session (deactivate_session ''S1'' example_server) ''S1'' = None \<and>
   find_existing_session example_world 2000000 ''UA-A'' ''10.0.0.1'' ''https://crm.example.com''
      ''alice'' None (deactivate_session ''S1'' example_server) \<noteq> Some ''S1'' \<and>
   find_existing_session example_world 2000000 ''UA-A'' ''10.0.0.1'' ''https://crm.example.com''
      ''alice'' None example_server = Some ''S1'' \<and>
   get_chat_history (deactivate_session ''S1'' example_server) ''S1'' 20 =
     [\<lparr>role = ''user'', message_content = ''hello'', message_timestamp = 1000000, message_metadata = None\<rparr>,
      \<lparr>role = ''assistant'', message_content = ''Hi!'', message_timestamp = 1000000, message_metadata = None\<rparr>] \<and>
   get_chat_history (snd (cleanup_expired_sessions 2000000 30 (deactivate_session ''S1'' example_server)))
      ''S1'' 20 = []"
proof -
  have d: "distinct (map session_id (sessions_collection example_server))"
    by (simp add: example_server_def)
  have h: "get_chat_history example_server ''S1'' 20 =
     [\<lparr>role = ''user'', message_content = ''hello'', message_timestamp = 1000000, message_metadata = None\<rparr>,
      \<lparr>role = ''assistant'', message_content = ''Hi!'', message_timestamp = 1000000, message_metadata = None\<rparr>]"
    by (simp add: example_server_def example_message_def get_chat_history_def limit_cursor_def history_of_def)
  have f: "find_existing_session example_world 2000000 ''UA-A'' ''10.0.0.1'' ''https://crm.example.com''
      ''alice'' None example_server = Some ''S1''"
    by (simp add: example_chat_simps)
  have x: "example_session\<lparr>is_active := False\<rparr> \<in> set (sessions_collection (deactivate_session ''S1'' example_server))"
    by (simp add: deactivate_session_def example_server_def example_session_def)
  show ?thesis
    using inactive_session_hidden [of example_server "''S1''" example_session example_world 2000000
        "''UA-A''" "''10.0.0.1''" "''https://crm.example.com''" "''alice''" None 20
        "example_message ''M1'' ''user'' ''hello''" example_session 30]
      inactive_session_hidden [of "deactivate_session ''S1'' example_server" "''S1''" example_session
        example_world 2000000 "''UA-A''" "''10.0.0.1''" "''https://crm.example.com''" "''alice''" None 20
        "example_message ''M1'' ''user'' ''hello''" "example_session\<lparr>is_active := False\<rparr>" 30]
      d h f x
    by (simp add: example_session_def)
qed

lemma expired_ids:
  assumes "distinct (map session_id (sessions_collection d))" "s \<in> set (sessions_collection d)"
  shows "session_id s \<in> set (map session_id (expired_sessions t days d)) \<longleftrightarrow>
         (last_accessed s < t - timedelta days \<or> \<not> is_active s)"
proof
  assume "session_id s \<in> set (map session_id (expired_sessions t days d))"
  then obtain e where e: "e \<in> set (sessions_collection d)" "session_id e = session_id s"
      "last_accessed e < t - timedelta days \<or> \<not> is_active e"
    by (auto simp: expired_sessions_def)
  with assms have "e = s" by (meson distinct_map inj_onD)
  with e show "last_accessed s < t - timedelta days \<or> \<not> is_active s" by simp
next
  assume "last_accessed s < t - timedelta days \<or> \<not> is_active s"
  with assms(2) show "session_id s \<in> set (map session_id (expired_sessions t days d))"
    by (auto simp: expired_sessions_def)
qed

lemma cleanup_expired_sessions_result:
  "cleanup_expired_sessions t days d =
     (PyNone,
      d\<lparr>messages_collection :=
           filter (\<lambda>m. msg_session_id m \<notin> set (map session_id (expired_sessions t days d)))
             (messages_collection d),
        sessions_collection :=
           filter (\<lambda>s. session_id s \<notin> set (map session_id (expired_sessions t days d)))
             (sessions_collection d)\<rparr>)"
  by (simp add: cleanup_expired_sessions_def Let_def)

text \<open>
  Claim C4, as the code has it. In a store of unique session ids,
  \<open>cleanup_expired_sessions\<close> keeps exactly the sessions that are active and were accessed
  at or after \<open>now\<close> minus \<open>days\<close>, keeps exactly the messages whose session id is not
  that of a deleted session, changes nothing else, and returns \<open>None\<close>: the number of
  sessions found is written to the log, not returned.
\<close>

theorem cleanup_expired_sessions_exact:
  assumes "distinct (map session_id (sessions_collection d))"
  shows "fst (cleanup_expired_sessions t days d) = PyNone \<and>
         sessions_collection (snd (cleanup_expired_sessions t days d)) =
           filter (\<lambda>s. \<not> (last_accessed s < t - timedelta days \<or> \<not> is_active s))
             (sessions_collection d) \<and>
         messages_collection (snd (cleanup_expired_sessions t days d)) =
           filter (\<lambda>m. \<not> (\<exists>s \<in> set (sessions_collection d). session_id s = msg_session_id m \<and>
                              (last_accessed s < t - timedelta days \<or> \<not> is_active s)))
             (messages_collection d) \<and>
         db.more (snd (cleanup_expired_sessions t days d)) = db.more d"
proof -
  have s: "filter (\<lambda>s. session_id s \<notin> set (map session_id (expired_sessions t days d)))
             (sessions_collection d) =
           filter (\<lambda>s. \<not> (last_accessed s < t - timedelta days \<or> \<not> is_active s))
             (sessions_collection d)"
    by (rule filter_cong [OF refl]) (use expired_ids [OF assms] in blast)
  have m: "filter (\<lambda>m. msg_session_id m \<notin> set (map session_id (expired_sessions t days d)))
             (messages_collection d) =
           filter (\<lambda>m. \<not> (\<exists>s \<in> set (sessions_collection d). session_id s = msg_session_id m \<and>
                              (last_accessed s < t - timedelta days \<or> \<not> is_active s)))
             (messages_collection d)"
  proof (rule filter_cong [OF refl])
    fix m :: ChatMessage
    have "msg_session_id m \<in> set (map session_id (expired_sessions t days d)) \<longleftrightarrow>
          (\<exists>s \<in> set (sessions_collection d). session_id s = msg_session_id m \<and>
                              (last_accessed s < t - timedelta days \<or> \<not> is_active s))"
      unfolding expired_sessions_def set_map set_filter image_iff by auto
    then show "(msg_session_id m \<notin> set (map session_id (expired_sessions t days d))) =
          (\<not> (\<exists>s \<in> set (sessions_collection d). session_id s = msg_session_id m \<and>
                              (last_accessed s < t - timedelta days \<or> \<not> is_active s)))"
      by simp
  qed
  show ?thesis
    unfolding cleanup_expired_sessions_result using s m by simp
qed

theorem cleanup_expired_sessions_exact_witness:
  "sessions_collection (snd (cleanup_expired_sessions 2000000 30 sweep_server)) = [example_session] \<and>
   messages_collection (snd (cleanup_expired_sessions 2000000 30 sweep_server)) =
     [example_message ''M1'' ''user'' ''hello''] \<and>
   fst (cleanup_expired_sessions 2000000 30 sweep_server) = PyNone"
proof -
  have d: "distinct (map session_id (sessions_collection sweep_server))"
    by (simp add: sweep_server_def example_session_def)
  show ?thesis
    using cleanup_expired_sessions_exact [OF d, of 2000000 30]
    by (simp add: sweep_server_def example_session_def example_message_def timedelta_def)
qed

text \<open>The claim as stated fails: two sessions are deleted and the value returned is
  \<open>None\<close>, not the count.\<close>

theorem cleanup_returns_count_counterexample:
  "length (sessions_collection sweep_server) -
     length (sessions_collection (snd (cleanup_expired_sessions 2000000 30 sweep_server))) = 2 \<and>
   fst (cleanup_expired_sessions 2000000 30 sweep_server) \<noteq> PyInt 2"
  by (simp add: cleanup_expired_sessions_def expired_sessions_def Let_def sweep_server_def
        example_session_def example_server_def timedelta_def)

section \<open>The tenant key\<close>

lemma of_char_lower_char:
  "of_char (lower_char c) = (if 65 \<le> (of_char c :: nat) \<and> (of_char c :: nat) \<le> 90
                             then of_char c + 32 else (of_char c :: nat))"
  by (simp add: lower_char_def Let_def)

lemma lower_char_fixed:
  "\<not> (65 \<le> (of_char d :: nat) \<and> (of_char d :: nat) \<le> 90) \<Longrightarrow> lower_char d = d"
  by (auto simp: lower_char_def Let_def)

lemma lower_char_idem: "lower_char (lower_char c) = lower_char c"
proof (cases "65 \<le> (of_char c :: nat) \<and> (of_char c :: nat) \<le> 90")
  case True
  then have "of_char (lower_char c) = (of_char c :: nat) + 32" by (simp add: of_char_lower_char)
  with True have "\<not> (65 \<le> (of_char (lower_char c) :: nat) \<and> (of_char (lower_char c) :: nat) \<le> 90)"
    by simp
  then show ?thesis by (rule lower_char_fixed)
next
  case False
  then show ?thesis by (simp add: lower_char_fixed)
qed

lemma lower_idem: "lower (lower s) = lower s"
  by (simp add: lower_def lower_char_idem)

lemma lower_append: "lower (a @ b) = lower a @ lower b"
  by (simp add: lower_def)

lemma lower_char_slash: "lower_char c = CHR ''/'' \<longleftrightarrow> c = CHR ''/''"
proof
  assume a: "lower_char c = CHR ''/''"
  then have "(of_char (lower_char c) :: nat) = 47" by simp
  then have "(of_char c :: nat) = 47" by (simp add: of_char_lower_char split: if_splits)
  moreover have "(of_char (CHR ''/'') :: nat) = 47" by simp
  ultimately have "(of_char c :: nat) = of_char (CHR ''/'')" by simp
  then show "c = CHR ''/''" by (simp only: of_char_eq_iff)
next
  assume "c = CHR ''/''"
  then show "lower_char c = CHR ''/''" by (simp add: lower_char_def)
qed

lemma lower_rstrip: "lower (rstrip (CHR ''/'') s) = rstrip (CHR ''/'') (lower s)"
proof -
  have "dropWhile (\<lambda>x. x = CHR ''/'') (map lower_char xs) =
        map lower_char (dropWhile (\<lambda>x. x = CHR ''/'') xs)" for xs
    by (induction xs) (simp_all add: lower_char_slash)
  then show ?thesis by (simp add: lower_def rstrip_def rev_map)
qed

lemma rstrip_trailing: "rstrip c (s @ replicate n c) = rstrip c s"
proof -
  have "dropWhile (\<lambda>x. x = c) (replicate n c @ ys) = dropWhile (\<lambda>x. x = c) ys" for ys
    by (induction n) simp_all
  then show ?thesis by (simp add: rstrip_def)
qed

lemma split_scheme_append: "split_scheme s = (p, r) \<Longrightarrow> p @ r = s"
proof (induction s arbitrary: p r)
  case Nil
  then show ?case by simp
next
  case (Cons c cs)
  show ?case
  proof (cases "take 3 (c # cs) = ''://''")
    case True
    with Cons.prems have "p = ''://''" "r = drop 3 (c # cs)" by simp_all
    with True show ?thesis by (metis append_take_drop_id)
  next
    case False
    obtain p' r' where s: "split_scheme cs = (p', r')" by (cases "split_scheme cs")
    with Cons.IH have "p' @ r' = cs" by simp
    with False s Cons.prems show ?thesis by (auto split: if_splits)
  qed
qed

lemma lower_normalize_spec: "lower (normalize_spec e) = lower (rstrip (CHR ''/'') e)"
proof -
  obtain p r where s: "split_scheme (rstrip (CHR ''/'') e) = (p, r)"
    by (cases "split_scheme (rstrip (CHR ''/'') e)")
  have r: "lower r = lower (takeWhile in_host r) @ lower (dropWhile in_host r)"
    by (metis lower_append takeWhile_dropWhile_id)
  have "lower (p @ lower (takeWhile in_host r) @ dropWhile in_host r) = lower (p @ r)"
    by (simp add: lower_append lower_idem r)
  also have "\<dots> = lower (rstrip (CHR ''/'') e)" using split_scheme_append [OF s] by simp
  finally show ?thesis using s by (simp add: normalize_spec_def)
qed

text \<open>
  Claim C9, as the code has it. The tenant key is the first 16 characters of the
  SHA-256 hex digest of \<open>lower(username) + "@" + lower(rstrip(url, "/"))\<close>: the whole URL
  is lowercased, not the host alone. So the key is the same for URLs that differ in
  trailing slashes, for names and URLs that differ in the case of letters anywhere, and
  for any two URLs the specification's normalisation identifies.
\<close>

theorem generate_user_identifier_normalises:
  "generate_user_identifier w u e =
     take 16 (sha256_hexdigest w (lower u @ ''@'' @ lower (rstrip (CHR ''/'') e))) \<and>
   generate_user_identifier w u (e @ replicate n (CHR ''/'')) = generate_user_identifier w u e \<and>
   (lower u = lower u' \<and> lower e = lower e' \<longrightarrow>
      generate_user_identifier w u e = generate_user_identifier w u' e') \<and>
   (normalize_spec e = normalize_spec e' \<longrightarrow>
      generate_user_identifier w u e = generate_user_identifier w u e')"
proof -
  have a: "generate_user_identifier w u e =
     take 16 (sha256_hexdigest w (lower u @ ''@'' @ lower (rstrip (CHR ''/'') e)))" for u e
    by (simp add: generate_user_identifier_def)
  have b: "generate_user_identifier w u (e @ replicate n (CHR ''/'')) = generate_user_identifier w u e"
    by (simp add: a rstrip_trailing)
  have c: "lower u = lower u' \<and> lower e = lower e' \<longrightarrow>
      generate_user_identifier w u e = generate_user_identifier w u' e'"
    by (simp add: a lower_rstrip)
  have d: "normalize_spec e = normalize_spec e' \<longrightarrow>
      generate_user_identifier w u e = generate_user_identifier w u e'"
    using lower_normalize_spec [of e] lower_normalize_spec [of e'] by (auto simp: a)
  show ?thesis by (rule conjI [OF a conjI [OF b conjI [OF c d]]])
qed

theorem generate_user_identifier_normalises_witness:
  "lower ''Alice'' = lower ''alice'' \<and>
   lower ''https://CRM.Example.com/App'' = lower ''https://crm.example.com/app'' \<and>
   generate_user_identifier example_world ''Alice'' ''https://CRM.Example.com/App'' =
     generate_user_identifier example_world ''alice'' ''https://crm.example.com/app'' \<and>
   normalize_spec ''https://CRM.Example.com/App//'' = normalize_spec ''https://crm.example.com/App'' \<and>
   generate_user_identifier example_world ''alice'' ''https://CRM.Example.com/App//'' =
     generate_user_identifier example_world ''alice'' ''https://crm.example.com/App''"
proof -
  have l: "lower ''Alice'' = lower ''alice''"
    "lower ''https://CRM.Example.com/App'' = lower ''https://crm.example.com/app''"
    by code_simp+
  have n: "normalize_spec ''https://CRM.Example.com/App//'' = normalize_spec ''https://crm.example.com/App''"
    by code_simp
  have g1: "generate_user_identifier example_world ''Alice'' ''https://CRM.Example.com/App'' =
     generate_user_identifier example_world ''alice'' ''https://crm.example.com/app''"
    by (rule mp [OF generate_user_identifier_normalises
          [THEN conjunct2, THEN conjunct2, THEN conjunct1] conjI [OF l(1) l(2)]])
  have g2: "generate_user_identifier example_world ''alice'' ''https://CRM.Example.com/App//'' =
     generate_user_identifier example_world ''alice'' ''https://crm.example.com/App''"
    by (rule mp [OF generate_user_identifier_normalises
          [THEN conjunct2, THEN conjunct2, THEN conjunct2] n])
  show ?thesis by (rule conjI [OF l(1) conjI [OF l(2) conjI [OF g1 conjI [OF n g2]]]])
qed

text \<open>The claim as stated fails on a URL with an uppercase letter in its path: the
  code hashes the lowercased path, the specification keeps it, and the keys differ (also
  when the specification's digest is cut to 16 characters).\<close>

theorem tenant_key_host_only_counterexample:
  "lower (rstrip (CHR ''/'') ''https://crm.example.com/App'') = ''https://crm.example.com/app'' \<and>
   normalize_spec ''https://crm.example.com/App'' = ''https://crm.example.com/App'' \<and>
   generate_user_identifier example_world ''alice'' ''https://crm.example.com/App'' \<noteq>
     tenantKey_spec example_world ''alice'' ''https://crm.example.com/App'' \<and>
   generate_user_identifier example_world ''alice'' ''https://crm.example.com/App'' \<noteq>
     take 16 (tenantKey_spec example_world ''alice'' ''https://crm.example.com/App'')"
  by code_simp

section \<open>The rate limiter of the chat view\<close>

lemma ten_admitted:
  "rate_limits (after_chats [2000000, 3000000, 4000000, 5000000, 6000000, 7000000, 8000000,
        9000000, 10000000] example_server) ''10.0.0.1'' =
   Some [1000000, 2000000, 3000000, 4000000, 5000000, 6000000, 7000000, 8000000, 9000000, 10000000]"
  by (simp add: after_chats_def example_chat_simps)

text \<open>
  Claim C6 at the input where the code departs from it. Ten chat requests from one
  address at seconds 1 to 10 are admitted. A request 61 seconds after the last of them is
  admitted, as the claim says. A request one day and 30 seconds after the first is
  refused with 429: \<open>(current_time - t).seconds\<close> is the seconds component of the
  interval (20 to 29 here), not its length, so none of the ten entries is pruned.
\<close>

theorem chat_rate_limit_day_later:
  "recent_requests 86430000000
      [1000000, 2000000, 3000000, 4000000, 5000000, 6000000, 7000000, 8000000, 9000000, 10000000] =
      [1000000, 2000000, 3000000, 4000000, 5000000, 6000000, 7000000, 8000000, 9000000, 10000000] \<and>
   fst (chat_with_agent (example_call 86430000000 ''M'') (example_chat ''S1'' ''hello'')
         (after_chats [2000000, 3000000, 4000000, 5000000, 6000000, 7000000, 8000000,
            9000000, 10000000] example_server)) =
     (Error ''Rate limit exceeded. Please try again later.'', 429) \<and>
   chat_rate_limit ''10.0.0.1'' 71000000
      (rate_limits (after_chats [2000000, 3000000, 4000000, 5000000, 6000000, 7000000, 8000000,
            9000000, 10000000] example_server)) =
     Some ((rate_limits (after_chats [2000000, 3000000, 4000000, 5000000, 6000000, 7000000, 8000000,
            9000000, 10000000] example_server))(''10.0.0.1'' \<mapsto> [71000000]))"
  using ten_admitted
  by (simp add: chat_with_agent_def chat_rate_limit_def recent_requests_def seconds_def
        example_call_def example_chat_def)

section \<open>Two init requests in a row\<close>

lemma update_one_ids_access:
  "map session_id (update_one q (\<lambda>s. s\<lparr>last_accessed := t\<rparr>) docs) = map session_id docs"
  by (induction docs) auto

lemma update_one_access_mem:
  "distinct (map session_id docs) \<Longrightarrow> s \<in> set docs \<Longrightarrow>
   set (update_one (\<lambda>x. session_id x = session_id s) (\<lambda>x. x\<lparr>last_accessed := t\<rparr>) docs) =
     insert (s\<lparr>last_accessed := t\<rparr>) (set docs - {s})"
proof (induction docs)
  case Nil
  then show ?case by simp
next
  case (Cons d ds)
  show ?case
  proof (cases "d = s")
    case True
    with Cons.prems have "s \<notin> set ds" by auto
    with True show ?thesis by auto
  next
    case False
    with Cons.prems have s: "s \<in> set ds" and ne: "session_id d \<noteq> session_id s" by auto
    from Cons.prems have "distinct (map session_id ds)" by simp
    from Cons.IH [OF this s] ne False show ?thesis by auto
  qed
qed

lemma session_token_login_clock:
  assumes "get_logged_user c2 = get_logged_user c1"
  shows "session_token_login c2 data u p = session_token_login c1 data u p"
  unfolding session_token_login_def assms by (rule refl)

lemma init_checks_clock:
  assumes "get_logged_user c2 = get_logged_user c1"
  shows "init_checks w c2 req = init_checks w c1 req"
  unfolding init_checks_def session_token_login_clock [OF assms] by (rule refl)

text \<open>What a successful answer of the \<open>try\<close> block says about the state it leaves.\<close>

lemma create_new_session_ok:
  assumes "create_new_session w c url uname pw api_key ua ip sbu st = ((Session sid msg b, 200), st1)"
  shows "\<exists>p. pw = Some p \<and> sid = uuid4 c \<and> \<not> b \<and>
           sessions_collection st1 = sessions_collection st @
             [\<lparr>session_id = uuid4 c, user_id = None,
               user_identifier = generate_user_identifier w uname url,
               erpnext_url = url, username = uname,
               password_hash = hash_credential w p,
               google_api_key_hash = hash_credential w api_key,
               site_base_url = (case py_or (Some sbu) (Some url) of None \<Rightarrow> url | Some v \<Rightarrow> v),
               created_at = now c, last_accessed = now c,
               browser_fingerprint = generate_browser_fingerprint w ua ip,
               is_active = True\<rparr>] \<and>
           messages_collection st1 = messages_collection st \<and>
           active_agents st1 sid \<noteq> None"
  using assms
  by (auto simp: create_new_session_def create_session_def failed_init_def
           split: option.splits if_splits)

lemma restore_existing_ok:
  assumes "restore_existing c existing pw api_key st = ((Session sid msg b, 200), st1)"
  shows "sid = existing \<and> b \<and>
         sessions_collection st1 =
           update_one (\<lambda>s. session_id s = existing) (\<lambda>s. s\<lparr>last_accessed := now c\<rparr>)
             (sessions_collection st) \<and>
         messages_collection st1 = messages_collection st \<and>
         active_agents st1 sid \<noteq> None"
  using assms
  by (auto simp: restore_existing_def update_session_access_def failed_init_def Let_def
           split: option.splits if_splits)

lemma find_existing_session_keys:
  assumes "find_existing_session w t ua ip url uname None d = Some sid"
  shows "\<exists>s \<in> set (sessions_collection d). session_id s = sid \<and> is_active s \<and>
           user_identifier s = generate_user_identifier w uname url \<and>
           browser_fingerprint s = generate_browser_fingerprint w ua ip"
proof -
  from assms obtain s where s: "find_one_latest
                     (\<lambda>s. user_identifier s = generate_user_identifier w uname url \<and>
                          browser_fingerprint s = generate_browser_fingerprint w ua ip \<and>
                          t - timedelta 30 \<le> last_accessed s \<and> is_active s)
                     (sessions_collection d) = Some s" and "session_id s = sid"
    by (auto simp: find_existing_session_def Let_def truthy_def split: option.splits)
  with find_one_latest_Some [OF s] show ?thesis by auto
qed

lemma created_restorable:
  assumes ids: "distinct (map session_id (sessions_collection st))"
    and past: "\<forall>s \<in> set (sessions_collection st). last_accessed s < now c"
    and fresh: "uuid4 c \<notin> set (map session_id (sessions_collection st))" "uuid4 c \<noteq> []"
    and ok: "create_new_session w c url uname pw api_key ua ip sbu st = ((Session sid msg b, 200), st1)"
  shows "\<exists>p. pw = Some p \<and> \<not> b \<and> restorable w url uname ua ip p api_key (now c) sid st1 \<and>
           distinct (map session_id (sessions_collection st1)) \<and>
           messages_collection st1 = messages_collection st"
proof -
  from create_new_session_ok [OF ok] obtain p where p: "pw = Some p" "sid = uuid4 c" "\<not> b"
    and ss: "sessions_collection st1 = sessions_collection st @
             [\<lparr>session_id = uuid4 c, user_id = None,
               user_identifier = generate_user_identifier w uname url,
               erpnext_url = url, username = uname,
               password_hash = hash_credential w p,
               google_api_key_hash = hash_credential w api_key,
               site_base_url = (case py_or (Some sbu) (Some url) of None \<Rightarrow> url | Some v \<Rightarrow> v),
               created_at = now c, last_accessed = now c,
               browser_fingerprint = generate_browser_fingerprint w ua ip,
               is_active = True\<rparr>]"
    and ms: "messages_collection st1 = messages_collection st"
    and ag: "active_agents st1 sid \<noteq> None" by blast
  define new where "new = \<lparr>session_id = uuid4 c, user_id = None,
               user_identifier = generate_user_identifier w uname url,
               erpnext_url = url, username = uname,
               password_hash = hash_credential w p,
               google_api_key_hash = hash_credential w api_key,
               site_base_url = (case py_or (Some sbu) (Some url) of None \<Rightarrow> url | Some v \<Rightarrow> v),
               created_at = now c, last_accessed = now c,
               browser_fingerprint = generate_browser_fingerprint w ua ip,
               is_active = True\<rparr>"
  have ss': "sessions_collection st1 = sessions_collection st @ [new]" using ss new_def by simp
  have d1: "distinct (map session_id (sessions_collection st1))"
    using ids fresh(1) by (simp add: ss' new_def)
  have mem: "new \<in> set (sessions_collection st1)" by (simp add: ss')
  have act: "is_active new" "session_id new = sid" "last_accessed new = now c"
    by (simp_all add: new_def p)
  have gs: "get_session st1 sid = Some new"
    using get_session_distinct [OF d1 mem act(1)] act(2) by simp
  have others: "\<forall>x \<in> set (sessions_collection st1). x \<noteq> new \<longrightarrow> last_accessed x < now c"
    using past by (auto simp: ss')
  have "restorable w url uname ua ip p api_key (now c) sid st1"
    unfolding restorable_def
    using fresh(2) p(2) ag mem act gs others by (intro conjI bexI [of _ new]) (simp_all add: new_def)
  with p d1 ms show ?thesis by blast
qed

lemma restored_restorable:
  assumes ids: "distinct (map session_id (sessions_collection st))"
    and past: "\<forall>s \<in> set (sessions_collection st). last_accessed s < now c"
    and found: "find_existing_session w (now c) ua ip url uname None st = Some sid" "sid \<noteq> []"
    and ver: "verify_credentials w st sid pw api_key = Inr True"
    and ok: "restore_existing c sid pw api_key st = ((Session sid' msg b, 200), st1)"
  shows "\<exists>p. pw = Some p \<and> sid' = sid \<and> b \<and> restorable w url uname ua ip p api_key (now c) sid st1 \<and>
           distinct (map session_id (sessions_collection st1)) \<and>
           messages_collection st1 = messages_collection st"
proof -
  from find_existing_session_keys [OF found(1)] obtain s where
    s: "s \<in> set (sessions_collection st)" "session_id s = sid" "is_active s"
       "user_identifier s = generate_user_identifier w uname url"
       "browser_fingerprint s = generate_browser_fingerprint w ua ip" by blast
  have gs: "get_session st sid = Some s"
    using get_session_distinct [OF ids s(1) s(3)] s(2) by simp
  from ver gs obtain p where p: "pw = Some p" "password_hash s = hash_credential w p"
      "google_api_key_hash s = hash_credential w api_key"
    by (auto simp: verify_credentials_def split: option.splits)
  from restore_existing_ok [OF ok] have r: "sid' = sid" "b"
      "sessions_collection st1 =
           update_one (\<lambda>x. session_id x = sid) (\<lambda>x. x\<lparr>last_accessed := now c\<rparr>)
             (sessions_collection st)"
      "messages_collection st1 = messages_collection st" "active_agents st1 sid \<noteq> None"
    by auto
  define s' where "s' = s\<lparr>last_accessed := now c\<rparr>"
  have set1: "set (sessions_collection st1) = insert s' (set (sessions_collection st) - {s})"
    using update_one_access_mem [OF ids s(1), of "now c"] r(3) s(2) s'_def by simp
  have d1: "distinct (map session_id (sessions_collection st1))"
    using ids by (simp add: r(3) update_one_ids_access)
  have mem: "s' \<in> set (sessions_collection st1)" using set1 by simp
  have props: "session_id s' = sid" "is_active s'" "last_accessed s' = now c"
    "user_identifier s' = generate_user_identifier w uname url"
    "browser_fingerprint s' = generate_browser_fingerprint w ua ip"
    "password_hash s' = hash_credential w p"
    "google_api_key_hash s' = hash_credential w api_key"
    using s p by (simp_all add: s'_def)
  have gs1: "get_session st1 sid = Some s'"
    using get_session_distinct [OF d1 mem props(2)] props(1) by simp
  have others: "\<forall>x \<in> set (sessions_collection st1). x \<noteq> s' \<longrightarrow> last_accessed x < now c"
    using past set1 by auto
  have "restorable w url uname ua ip p api_key (now c) sid st1"
    unfolding restorable_def
    using found(2) r(5) mem props gs1 others by (intro conjI bexI [of _ s']) simp_all
  with p(1) r(1,2,4) d1 show ?thesis by blast
qed

lemma init_try_restorable:
  assumes ids: "distinct (map session_id (sessions_collection st))"
    and past: "\<forall>s \<in> set (sessions_collection st). last_accessed s < now c"
    and fresh: "uuid4 c \<notin> set (map session_id (sessions_collection st))" "uuid4 c \<noteq> []"
    and ok: "init_try w c url uname pw api_key ua ip sbu restore st = ((Session sid msg b, 200), st1)"
  shows "\<exists>p. pw = Some p \<and> restorable w url uname ua ip p api_key (now c) sid st1 \<and>
           distinct (map session_id (sessions_collection st1)) \<and>
           messages_collection st1 = messages_collection st"
proof (cases "create_new_session w c url uname pw api_key ua ip sbu st = ((Session sid msg b, 200), st1)")
  case True
  from created_restorable [OF ids past fresh True] show ?thesis by blast
next
  case False
  with ok obtain existing where e: "restore"
      "find_existing_session w (now c) ua ip url uname None st = Some existing" "existing \<noteq> []"
      "verify_credentials w st existing pw api_key = Inr True"
      "restore_existing c existing pw api_key st = ((Session sid msg b, 200), st1)"
    by (auto simp: init_try_def failed_init_def split: option.splits if_splits sum.splits)
  from restored_restorable [OF ids past e(2,3,4,5)] show ?thesis by blast
qed

text \<open>The next request in such a state.\<close>

lemma restorable_found:
  assumes r: "restorable w url uname ua ip p api_key t sid st"
  shows "find_existing_session w t2 ua ip url uname None st = None \<or>
         find_existing_session w t2 ua ip url uname None st = Some sid"
    and "t2 - timedelta 30 \<le> t \<Longrightarrow> find_existing_session w t2 ua ip url uname None st = Some sid"
proof -
  from r obtain s where s: "s \<in> set (sessions_collection st)" "session_id s = sid" "is_active s"
      "last_accessed s = t" "user_identifier s = generate_user_identifier w uname url"
      "browser_fingerprint s = generate_browser_fingerprint w ua ip"
      "\<forall>x \<in> set (sessions_collection st). x \<noteq> s \<longrightarrow> last_accessed x < t"
    unfolding restorable_def by blast
  let ?q = "\<lambda>s. user_identifier s = generate_user_identifier w uname url \<and>
                          browser_fingerprint s = generate_browser_fingerprint w ua ip \<and>
                          t2 - timedelta 30 \<le> last_accessed s \<and> is_active s"
  have fe: "find_existing_session w t2 ua ip url uname None st =
      (case find_one_latest ?q (sessions_collection st) of None \<Rightarrow> None | Some s \<Rightarrow> Some (session_id s))"
    by (simp add: find_existing_session_def Let_def truthy_def)
  have inside: "t2 - timedelta 30 \<le> t \<Longrightarrow> find_one_latest ?q (sessions_collection st) = Some s"
    by (rule find_one_latest_strict) (use s in auto)
  show "t2 - timedelta 30 \<le> t \<Longrightarrow> find_existing_session w t2 ua ip url uname None st = Some sid"
    using inside s(2) by (simp add: fe)
  show "find_existing_session w t2 ua ip url uname None st = None \<or>
         find_existing_session w t2 ua ip url uname None st = Some sid"
  proof (cases "find_one_latest ?q (sessions_collection st)")
    case None
    then show ?thesis by (simp add: fe)
  next
    case (Some x)
    from find_one_latest_Some [OF Some] have x: "x \<in> set (sessions_collection st)"
      "t2 - timedelta 30 \<le> last_accessed x" by auto
    have "t2 - timedelta 30 \<le> t"
      using x s(4,7) by (cases "x = s") force+
    with inside Some s(2) show ?thesis by (simp add: fe)
  qed
qed

lemma restorable_verify:
  assumes "restorable w url uname ua ip p api_key t sid st"
  shows "verify_credentials w st sid (Some p2) api_key = Inr (hash_credential w p = hash_credential w p2)"
  using assms unfolding restorable_def by (auto simp: verify_credentials_def)

lemma restorable_restore:
  assumes "restorable w url uname ua ip p api_key t sid st"
  shows "restore_existing c sid pw api_key st =
           ((Session sid ''Session restored successfully.'' True, 200), update_session_access (now c) sid st)"
  using assms unfolding restorable_def
  by (auto simp: restore_existing_def update_session_access_def Let_def)

lemma init_try_again:
  assumes r: "restorable w url uname ua ip p api_key t sid st" and "now c - timedelta 30 \<le> t"
  shows "init_try w c url uname (Some p) api_key ua ip sbu True st =
           ((Session sid ''Session restored successfully.'' True, 200), update_session_access (now c) sid st)"
proof -
  have f: "find_existing_session w (now c) ua ip url uname None st = Some sid"
    using restorable_found(2) [OF r assms(2)] .
  have ne: "sid \<noteq> []" using r unfolding restorable_def by simp
  show ?thesis
    using f ne restorable_verify [OF r, of p] restorable_restore [OF r]
    by (simp add: init_try_def)
qed

lemma init_checks_refusal: "init_checks w c req = Inl r \<Longrightarrow> \<exists>m n. r = (Error m, n)"
  by (auto simp: init_checks_def session_token_login_def Let_def
           split: if_splits sum.splits http_outcome.splits prod.splits)

lemma init_checks_restore:
  "init_checks w c req = Inr (url, uname, pw, api_key, sbu, rs) \<Longrightarrow>
   rs = (restore_session req \<noteq> Some False)"
  by (auto simp: init_checks_def Let_def split: if_splits sum.splits prod.splits option.splits)

lemma init_session_ok:
  assumes "init_session w c req st = ((Session sid msg b, 200), st1)"
  shows "\<exists>url uname pw api_key sbu rs.
           init_checks w c req = Inr (url, uname, pw, api_key, sbu, rs) \<and>
           init_try w c url uname pw api_key (user_agent req) (remote_addr req) sbu rs st =
             ((Session sid msg b, 200), st1)"
proof (cases "init_checks w c req")
  case (Inl r)
  with init_checks_refusal [OF Inl] assms show ?thesis by (auto simp: init_session_def)
next
  case (Inr v)
  obtain url uname pw api_key sbu rs where v: "v = (url, uname, pw, api_key, sbu, rs)"
    by (cases v) auto
  with Inr assms show ?thesis by (simp add: init_session_def)
qed

text \<open>
  Claim C2. The store has unique session ids and no time stamp at or after the clock
  reading of the first request, and the identifier drawn for a new session is not empty
  and not in use. If an init request is answered with a session id, then the same request
  again, with the restore flag not switched off, the same answer of the CRM to a session
  token and a clock reading less than 30 days later, is answered with the same session id
  and \<open>restored = True\<close>; it only refreshes \<open>last_accessed\<close>.
\<close>

theorem init_session_twice:
  assumes ids: "distinct (map session_id (sessions_collection st))"
    and past: "\<forall>s \<in> set (sessions_collection st). last_accessed s < now c1"
    and fresh: "uuid4 c1 \<notin> set (map session_id (sessions_collection st))" "uuid4 c1 \<noteq> []"
    and first: "init_session w c1 req st = ((Session sid msg b, 200), st1)"
    and restore: "restore_session req \<noteq> Some False"
    and same: "get_logged_user c2 = get_logged_user c1"
    and window: "now c2 - timedelta 30 \<le> now c1"
  shows "init_session w c2 req st1 =
           ((Session sid ''Session restored successfully.'' True, 200),
            update_session_access (now c2) sid st1)"
proof -
  from init_session_ok [OF first] obtain url uname pw api_key sbu rs where
    ch: "init_checks w c1 req = Inr (url, uname, pw, api_key, sbu, rs)" and
    tr: "init_try w c1 url uname pw api_key (user_agent req) (remote_addr req) sbu rs st =
             ((Session sid msg b, 200), st1)" by blast
  have rs: "rs" using init_checks_restore [OF ch] restore by simp
  from init_try_restorable [OF ids past fresh tr] obtain p where p: "pw = Some p" and
    r: "restorable w url uname (user_agent req) (remote_addr req) p api_key (now c1) sid st1"
    by blast
  have ch2: "init_checks w c2 req = Inr (url, uname, Some p, api_key, sbu, True)"
    using init_checks_clock [OF same, of w req] ch p rs by simp
  show ?thesis
    using init_try_again [OF r window, of sbu] ch2 by (simp add: init_session_def)
qed

theorem init_session_twice_witness:
  "init_session example_world (example_call 0 ''S1'') (example_init ''pw1'') empty_server =
     ((Session ''S1'' ''New session created successfully.'' False, 200),
      snd (init_session example_world (example_call 0 ''S1'') (example_init ''pw1'') empty_server)) \<and>
   init_session example_world (example_call 60000000 ''S2'') (example_init ''pw1'')
     (snd (init_session example_world (example_call 0 ''S1'') (example_init ''pw1'') empty_server)) =
     ((Session ''S1'' ''Session restored successfully.'' True, 200),
      update_session_access 60000000 ''S1''
        (snd (init_session example_world (example_call 0 ''S1'') (example_init ''pw1'') empty_server)))"
proof -
  have first: "init_session example_world (example_call 0 ''S1'') (example_init ''pw1'') empty_server =
     ((Session ''S1'' ''New session created successfully.'' False, 200),
      snd (init_session example_world (example_call 0 ''S1'') (example_init ''pw1'') empty_server))"
    by (simp add: example_simps)
  have h: "distinct (map session_id (sessions_collection empty_server))"
    "\<forall>s \<in> set (sessions_collection empty_server). last_accessed s < now (example_call 0 ''S1'')"
    "uuid4 (example_call 0 ''S1'') \<notin> set (map session_id (sessions_collection empty_server))"
    "uuid4 (example_call 0 ''S1'') \<noteq> []"
    "restore_session (example_init ''pw1'') \<noteq> Some False"
    "get_logged_user (example_call 60000000 ''S2'') = get_logged_user (example_call 0 ''S1'')"
    "now (example_call 60000000 ''S2'') - timedelta 30 \<le> now (example_call 0 ''S1'')"
    by (simp_all add: empty_server_def example_call_def example_init_def timedelta_def)
  have n: "now (example_call 60000000 ''S2'') = 60000000" by (simp add: example_call_def)
  show ?thesis
    using init_session_twice [OF h(1,2,3,4) first h(5,6,7)] first n by simp
qed







end
